theory Spec2Isabelle
  imports Complex_Main "HOL-Library.Monad_Syntax" "HOL-Library.AList"
begin

section \<open>The portfolio optimizer service\<close>

text \<open>
  A shallow embedding of \<^verbatim>\<open>services/portfolio-optimizer.ts\<close> (class
  \<^verbatim>\<open>PortfolioOptimizerService\<close>).

  Numbers. A JavaScript number that is finite is modelled as a \<^typ>\<open>real\<close>: the
  rounding of IEEE doubles and signed zeros are not modelled. The values \<^verbatim>\<open>NaN\<close>,
  \<^verbatim>\<open>Infinity\<close> and \<^verbatim>\<open>undefined\<close> are not reals. In the frontier builder,
  whose divisions are not guarded and which goes on with their results, numbers carry these
  special values (type \<open>jsnum\<close>), as do the scores the selector compares. Everywhere
  else a model function returns \<open>None\<close> where the source would produce a special value
  from finite operands (a division by zero, the square root of a negative number, the read
  of a missing key or index), or throws, or does not return: the run has left the real
  numbers, and the model says nothing more about it.

  Objects. An object \<^verbatim>\<open>{ [symbol: string]: number }\<close> is an association list with
  distinct keys in insertion order; an assignment \<^verbatim>\<open>o[k] = v\<close> is
  \<^const>\<open>AList.update\<close>, which overwrites in place or appends, as JavaScript does for
  keys that are not array indices.
\<close>

type_synonym obj = "(string \<times> real) list"

definition MONTE_CARLO_SCENARIOS :: nat where
  "MONTE_CARLO_SCENARIOS = 1000"

definition RISK_FREE_RATE :: real where
  "RISK_FREE_RATE = 45 / 1000"

definition TRADING_DAYS :: nat where
  "TRADING_DAYS = 252"

definition HISTORICAL_DAYS :: nat where
  "HISTORICAL_DAYS = 252"

text \<open>The interface \<^verbatim>\<open>HistoricalData\<close>; its \<^verbatim>\<open>dates\<close> are read by no calculation
  and are left out.\<close>

record HistoricalData =
  hd_symbol :: string
  hd_prices :: "real list"
  hd_returns :: "real list"


subsection \<open>Random source and return modeler\<close>

text \<open>
  The source draws from the ambient \<^verbatim>\<open>Math.random()\<close>. The model makes the values
  that its successive calls return an explicit supply, a list of reals of \<open>[0, 1)\<close>;
  whoever draws returns the rest of the supply. \<open>None\<close> stands for a run that asks for
  more values than the supply holds (with the real source, the loop of
  \<^verbatim>\<open>normalRandom\<close> is then still waiting for a non-zero value).
\<close>

type_synonym rng = "real list"

text \<open>The loop \<^verbatim>\<open>while (u === 0) u = Math.random()\<close>, started with \<^verbatim>\<open>u = 0\<close>.\<close>

fun next_nonzero :: "rng \<Rightarrow> (real \<times> rng) option" where
  "next_nonzero [] = None"
| "next_nonzero (x # xs) =
    (if 0 \<le> x \<and> x < 1 then (if x = 0 then next_nonzero xs else Some (x, xs)) else None)"

text \<open>\<^verbatim>\<open>normalRandom\<close>: the Box-Muller transform of two non-zero uniform values.\<close>

definition normalRandom :: "rng \<Rightarrow> (real \<times> rng) option" where
  "normalRandom rng = do {
     (u, rng1) \<leftarrow> next_nonzero rng;
     (v, rng2) \<leftarrow> next_nonzero rng1;
     Some (sqrt (- 2 * ln u) * cos (2 * pi * v), rng2)
   }"

text \<open>
  \<^verbatim>\<open>generateRealisticPriceHistory\<close>. The loop runs \<open>i\<close> from 1 below \<open>days\<close>; each
  round reads \<^verbatim>\<open>prices[i - 1]\<close> and puts the new price in front
  (\<^verbatim>\<open>unshift\<close>). The result is \<^verbatim>\<open>prices.slice(1)\<close>.
\<close>

fun price_loop :: "real \<Rightarrow> real \<Rightarrow> nat list \<Rightarrow> real list \<Rightarrow> rng \<Rightarrow> (real list \<times> rng) option" where
  "price_loop drift diffusion [] ps rng = Some (ps, rng)"
| "price_loop drift diffusion (i # is) ps rng =
    (case normalRandom rng of
       None \<Rightarrow> None
     | Some (z, rng') \<Rightarrow>
         (if i - 1 < length ps
          then price_loop drift diffusion is
                 (ps ! (i - 1) / exp (drift + z * diffusion) # ps) rng'
          else None))"

definition generateRealisticPriceHistory ::
    "real \<Rightarrow> real \<Rightarrow> real \<Rightarrow> nat \<Rightarrow> rng \<Rightarrow> (real list \<times> rng) option" where
  "generateRealisticPriceHistory currentPrice annualVolatility annualReturn days rng =
    (let dt = 1 / real TRADING_DAYS;
         drift = annualReturn * dt;
         diffusion = annualVolatility * sqrt dt
     in case price_loop drift diffusion [1..<days] [currentPrice] rng of
          None \<Rightarrow> None
        | Some (ps, rng') \<Rightarrow> Some (drop 1 ps, rng'))"

subsection \<open>Covariance estimator\<close>

text \<open>
  \<^verbatim>\<open>calculateCovariance\<close>. With a shared length of 1 the source divides 0 by 0
  (\<open>None\<close>); with a shared length of 0 the loop does not run and the source returns
  \<^verbatim>\<open>0 / -1\<close>, a zero.
\<close>

definition calculateCovariance :: "real list \<Rightarrow> real list \<Rightarrow> real option" where
  "calculateCovariance returns1 returns2 =
    (let minLength = min (length returns1) (length returns2);
         r1 = take minLength returns1;
         r2 = take minLength returns2;
         mean1 = fold (\<lambda>r sum. sum + r) r1 0 / real (length r1);
         mean2 = fold (\<lambda>r sum. sum + r) r2 0 / real (length r2);
         covariance = fold (\<lambda>i c. c + (r1 ! i - mean1) * (r2 ! i - mean2)) [0..<length r1] 0
     in if length r1 = 1 then None else Some (covariance / (real (length r1) - 1)))"

text \<open>\<^verbatim>\<open>calculateCovarianceMatrix\<close>: every entry is computed, then multiplied by
  \<^verbatim>\<open>TRADING_DAYS\<close>.\<close>

definition calculateCovarianceMatrix :: "HistoricalData list \<Rightarrow> real list list option" where
  "calculateCovarianceMatrix historicalData =
    (let n = length historicalData in
     those (map (\<lambda>i. those (map (\<lambda>j.
         map_option (\<lambda>c. c * real TRADING_DAYS)
           (calculateCovariance (hd_returns (historicalData ! i)) (hd_returns (historicalData ! j))))
       [0..<n])) [0..<n]))"

text \<open>The estimator as the specification words it: both series cut to the shared minimum
  length \<open>m\<close>, the sample covariance with denominator \<open>m - 1\<close>.\<close>

definition sample_covariance_spec :: "real list \<Rightarrow> real list \<Rightarrow> real" where
  "sample_covariance_spec a b =
    (let m = min (length a) (length b);
         mean_a = (\<Sum>k<m. a ! k) / real m;
         mean_b = (\<Sum>k<m. b ! k) / real m
     in (\<Sum>k<m. (a ! k - mean_a) * (b ! k - mean_b)) / (real m - 1))"

subsection \<open>Numbers with NaN and the infinities\<close>

text \<open>
  The frontier builder divides by sums that can be zero and goes on with the result, so its
  numbers are modelled with their special values: a finite number, \<^verbatim>\<open>Infinity\<close>,
  \<^verbatim>\<open>-Infinity\<close> or \<^verbatim>\<open>NaN\<close>. The operations follow IEEE 754 on these values
  (\<open>Infinity - Infinity\<close>, \<open>0 * Infinity\<close>, \<open>0 / 0\<close> and \<open>Infinity / Infinity\<close> are
  \<^verbatim>\<open>NaN\<close>, and every operation on \<^verbatim>\<open>NaN\<close> gives \<^verbatim>\<open>NaN\<close>); finite
  results are exact reals, and a zero has no sign: a non-zero number divided by zero is the
  infinity of the sign of the numerator.
\<close>

datatype jsnum = NegInfinity | Finite real | PosInfinity | NaN

type_synonym score = jsnum

text \<open>The division of two finite numbers, and a finite number subtracted.\<close>

definition js_divide :: "real \<Rightarrow> real \<Rightarrow> score" where
  "js_divide a b =
    (if b \<noteq> 0 then Finite (a / b)
     else if a = 0 then NaN
     else if 0 < a then PosInfinity
     else NegInfinity)"


text \<open>The comparison \<^verbatim>\<open>a > b\<close>, false whenever a side is \<^verbatim>\<open>NaN\<close>.\<close>

fun score_gt :: "score \<Rightarrow> score \<Rightarrow> bool" where
  "score_gt NaN _ = False"
| "score_gt _ NaN = False"
| "score_gt NegInfinity _ = False"
| "score_gt _ NegInfinity = True"
| "score_gt _ PosInfinity = False"
| "score_gt PosInfinity _ = True"
| "score_gt (Finite a) (Finite b) = (a > b)"

text \<open>\<^verbatim>\<open>a <= b\<close>, false as well whenever a side is \<^verbatim>\<open>NaN\<close>.\<close>

definition js_le :: "jsnum \<Rightarrow> jsnum \<Rightarrow> bool" where
  "js_le a b \<longleftrightarrow> a \<noteq> NaN \<and> b \<noteq> NaN \<and> \<not> score_gt a b"

text \<open>The sign of a number (0 for \<^verbatim>\<open>NaN\<close>) and the infinity of a sign (\<^verbatim>\<open>NaN\<close>
  for the sign 0).\<close>

fun js_sign :: "jsnum \<Rightarrow> real" where
  "js_sign (Finite x) = sgn x"
| "js_sign PosInfinity = 1"
| "js_sign NegInfinity = - 1"
| "js_sign NaN = 0"

definition inf_of_sign :: "real \<Rightarrow> jsnum" where
  "inf_of_sign s = (if s = 0 then NaN else if 0 < s then PosInfinity else NegInfinity)"

fun js_neg :: "jsnum \<Rightarrow> jsnum" where
  "js_neg (Finite x) = Finite (- x)"
| "js_neg PosInfinity = NegInfinity"
| "js_neg NegInfinity = PosInfinity"
| "js_neg NaN = NaN"

fun js_add :: "jsnum \<Rightarrow> jsnum \<Rightarrow> jsnum" where
  "js_add (Finite a) (Finite b) = Finite (a + b)"
| "js_add NaN _ = NaN"
| "js_add _ NaN = NaN"
| "js_add PosInfinity NegInfinity = NaN"
| "js_add NegInfinity PosInfinity = NaN"
| "js_add PosInfinity _ = PosInfinity"
| "js_add _ PosInfinity = PosInfinity"
| "js_add NegInfinity _ = NegInfinity"
| "js_add _ NegInfinity = NegInfinity"

definition js_sub :: "jsnum \<Rightarrow> jsnum \<Rightarrow> jsnum" where
  "js_sub a b = js_add a (js_neg b)"

fun js_mul :: "jsnum \<Rightarrow> jsnum \<Rightarrow> jsnum" where
  "js_mul (Finite a) (Finite b) = Finite (a * b)"
| "js_mul a b = inf_of_sign (js_sign a * js_sign b)"

fun js_div :: "jsnum \<Rightarrow> jsnum \<Rightarrow> jsnum" where
  "js_div NaN _ = NaN"
| "js_div _ NaN = NaN"
| "js_div (Finite a) (Finite b) = js_divide a b"
| "js_div (Finite a) _ = Finite 0"
| "js_div a (Finite b) = inf_of_sign (js_sign a * (if b < 0 then - 1 else 1))"
| "js_div _ _ = NaN"

fun js_sqrt :: "jsnum \<Rightarrow> jsnum" where
  "js_sqrt (Finite x) = (if x < 0 then NaN else Finite (sqrt x))"
| "js_sqrt PosInfinity = PosInfinity"
| "js_sqrt _ = NaN"

fun js_abs :: "jsnum \<Rightarrow> jsnum" where
  "js_abs (Finite x) = Finite \<bar>x\<bar>"
| "js_abs NaN = NaN"
| "js_abs _ = PosInfinity"

text \<open>\<^verbatim>\<open>Math.max\<close> and \<^verbatim>\<open>Math.min\<close> of two numbers.\<close>

definition js_max :: "jsnum \<Rightarrow> jsnum \<Rightarrow> jsnum" where
  "js_max a b = (if a = NaN \<or> b = NaN then NaN else if score_gt a b then a else b)"

definition js_min :: "jsnum \<Rightarrow> jsnum \<Rightarrow> jsnum" where
  "js_min a b = (if a = NaN \<or> b = NaN then NaN else if score_gt a b then b else a)"

subsection \<open>Efficient frontier builder\<close>

text \<open>
  The weights the builder computes are an object of such numbers. Reads, as the builder does
  them: \<^verbatim>\<open>expectedReturns[symbol]\<close> and \<^verbatim>\<open>weights[symbol]\<close> are
  \<^verbatim>\<open>undefined\<close> for a missing key, which is \<^verbatim>\<open>NaN\<close> in the arithmetic that
  follows; \<^verbatim>\<open>symbols[i]\<close> past the end is \<^verbatim>\<open>undefined\<close>, the key
  \<^verbatim>\<open>"undefined"\<close>; \<^verbatim>\<open>covarianceMatrix[i][j]\<close> of an existing row is
  \<^verbatim>\<open>undefined\<close> past its end, and of a missing row throws a TypeError, for which the
  functions return \<open>None\<close>.
\<close>

type_synonym jobj = "(string \<times> jsnum) list"

definition number_at :: "obj \<Rightarrow> string \<Rightarrow> jsnum" where
  "number_at ob s = (case map_of ob s of None \<Rightarrow> NaN | Some r \<Rightarrow> Finite r)"

definition weight_at :: "jobj \<Rightarrow> string \<Rightarrow> jsnum" where
  "weight_at ws s = (case map_of ws s of None \<Rightarrow> NaN | Some w \<Rightarrow> w)"

definition symbol_at :: "string list \<Rightarrow> nat \<Rightarrow> string" where
  "symbol_at symbols i = (if i < length symbols then symbols ! i else ''undefined'')"

definition cell :: "real list list \<Rightarrow> nat \<Rightarrow> nat \<Rightarrow> jsnum" where
  "cell m i j = (if j < length (m ! i) then Finite (m ! i ! j) else NaN)"

text \<open>\<^verbatim>\<open>calculatePortfolioReturn\<close> on such weights: a loop over
  \<^verbatim>\<open>Object.entries(weights)\<close>.\<close>

definition calculatePortfolioReturn_js :: "jobj \<Rightarrow> obj \<Rightarrow> jsnum" where
  "calculatePortfolioReturn_js ws expectedReturns =
    fold (\<lambda>(symbol, weight) portfolioReturn.
            js_add portfolioReturn (js_mul weight (number_at expectedReturns symbol)))
      ws (Finite 0)"

text \<open>\<^verbatim>\<open>calculatePortfolioVariance\<close> on such weights: the double loop over the indices
  of \<^verbatim>\<open>symbols\<close>; it reads every row \<open>i < n\<close> of the matrix.\<close>

definition calculatePortfolioVariance_js :: "jobj \<Rightarrow> real list list \<Rightarrow> string list \<Rightarrow> jsnum option" where
  "calculatePortfolioVariance_js ws covarianceMatrix symbols =
    (let n = length symbols
     in if length covarianceMatrix < n then None
        else Some (fold (\<lambda>i acc. fold (\<lambda>j variance.
                js_add variance
                  (js_mul (js_mul (weight_at ws (symbols ! i)) (weight_at ws (symbols ! j)))
                     (cell covarianceMatrix i j)))
              [0..<n] acc) [0..<n] (Finite 0)))"

text \<open>
  \<^verbatim>\<open>twoAssetOptimization\<close>; it reads the rows 0 and 1 of the matrix. The variable
  \<^verbatim>\<open>B\<close> of the source is never read.
\<close>

definition twoAssetOptimization :: "obj \<Rightarrow> real list list \<Rightarrow> string list \<Rightarrow> jsnum \<Rightarrow> jobj option" where
  "twoAssetOptimization expectedReturns covarianceMatrix symbols targetReturn =
    (if length covarianceMatrix < 2 then None
     else
       let r1 = number_at expectedReturns (symbol_at symbols 0);
           r2 = number_at expectedReturns (symbol_at symbols 1);
           var1 = cell covarianceMatrix 0 0;
           var2 = cell covarianceMatrix 1 1;
           cov12 = cell covarianceMatrix 0 1;
           A = js_sub var2 cov12;
           C = js_sub (js_add var1 var2) (js_mul (Finite 2) cov12);
           w1 = (if score_gt (Finite (1 / 1000000)) (js_abs (js_sub r1 r2))
                 then js_div A C
                 else js_div (js_sub targetReturn r2) (js_sub r1 r2));
           w1' = js_max (Finite 0) (js_min (Finite 1) w1);
           w2 = js_sub (Finite 1) w1'
       in Some (AList.update (symbol_at symbols 1) w2 (AList.update (symbol_at symbols 0) w1' [])))"

text \<open>
  \<^verbatim>\<open>multiAssetHeuristicOptimization\<close>, in the source's four steps: the scores (which
  read the diagonal of every row \<open>i < n\<close> of the matrix), the base weights, the nudge towards
  the target return, the renormalisation. No division is guarded: a \<^verbatim>\<open>currentReturn\<close>
  or a \<^verbatim>\<open>totalWeight\<close> of zero leaves infinities or \<^verbatim>\<open>NaN\<close> in the weights.
\<close>

definition heuristic_scores :: "obj \<Rightarrow> real list list \<Rightarrow> string list \<Rightarrow> jsnum list" where
  "heuristic_scores expectedReturns covarianceMatrix symbols =
    map (\<lambda>i.
        let excessReturn = js_sub (number_at expectedReturns (symbols ! i)) (Finite RISK_FREE_RATE);
            variance = cell covarianceMatrix i i;
            sharpeRatio = (if score_gt variance (Finite 0)
                           then js_div excessReturn (js_sqrt variance) else Finite 0)
        in js_max (Finite 0) sharpeRatio) [0..<length symbols]"

definition base_weights :: "string list \<Rightarrow> jsnum list \<Rightarrow> jobj" where
  "base_weights symbols scores =
    (let n = length symbols;
         totalScore = fold (\<lambda>score sum. js_add sum score) scores (Finite 0)
     in if totalScore = Finite 0
        then fold (\<lambda>i ws. AList.update (symbols ! i) (Finite (1 / real n)) ws) [0..<n] []
        else fold (\<lambda>i ws. AList.update (symbols ! i) (js_div (scores ! i) totalScore) ws) [0..<n] [])"

definition nudge :: "obj \<Rightarrow> string list \<Rightarrow> jsnum \<Rightarrow> jsnum \<Rightarrow> jobj \<Rightarrow> jobj" where
  "nudge expectedReturns symbols adjustment currentReturn ws0 =
    fold (\<lambda>symbol ws.
            let returnRatio = js_div (number_at expectedReturns symbol) currentReturn
            in AList.update symbol
                 (js_mul (weight_at ws symbol) (js_add (Finite 1) (js_mul adjustment returnRatio))) ws)
      symbols ws0"

definition renormalize :: "string list \<Rightarrow> jobj \<Rightarrow> jobj" where
  "renormalize symbols ws0 =
    (let totalWeight = fold (\<lambda>w sum. js_add sum w) (map snd ws0) (Finite 0)
     in fold (\<lambda>symbol ws. AList.update symbol (js_div (weight_at ws symbol) totalWeight) ws)
          symbols ws0)"

definition multiAssetHeuristicOptimization ::
    "obj \<Rightarrow> real list list \<Rightarrow> string list \<Rightarrow> jsnum \<Rightarrow> jobj option" where
  "multiAssetHeuristicOptimization expectedReturns covarianceMatrix symbols targetReturn =
    (if length covarianceMatrix < length symbols then None
     else
       let scores = heuristic_scores expectedReturns covarianceMatrix symbols;
           ws = base_weights symbols scores;
           currentReturn = calculatePortfolioReturn_js ws expectedReturns
       in if score_gt (js_abs (js_sub currentReturn targetReturn)) (Finite (1 / 100))
          then (let adjustment = js_div (js_sub targetReturn currentReturn) currentReturn;
                    ws' = nudge expectedReturns symbols adjustment currentReturn ws
                in Some (renormalize symbols ws'))
          else Some ws)"

definition meanVarianceOptimization ::
    "obj \<Rightarrow> real list list \<Rightarrow> string list \<Rightarrow> jsnum \<Rightarrow> jobj option" where
  "meanVarianceOptimization expectedReturns covarianceMatrix symbols targetReturn =
    (if length symbols = 2
     then twoAssetOptimization expectedReturns covarianceMatrix symbols targetReturn
     else multiAssetHeuristicOptimization expectedReturns covarianceMatrix symbols targetReturn)"

text \<open>
  A point of the frontier; the builder fills it with numbers that can be special, the
  selector below is modelled on points of finite numbers.
\<close>

record 'n FrontierPoint =
  fp_risk :: 'n
  fp_return :: 'n
  fp_weights :: "(string \<times> 'n) list"

text \<open>
  \<^verbatim>\<open>frontier.sort((a, b) => a.risk - b.risk)\<close>. The sort is stable, and a comparator
  result of \<^verbatim>\<open>NaN\<close> counts as 0: the model inserts a point before the first point
  that it is not greater than. Where a risk is \<^verbatim>\<open>NaN\<close> the comparator is not
  consistent and ECMAScript leaves the order to the implementation; the model's order is
  then one of the possible ones.
\<close>

fun insort_by_risk :: "jsnum FrontierPoint \<Rightarrow> jsnum FrontierPoint list \<Rightarrow> jsnum FrontierPoint list" where
  "insort_by_risk a [] = [a]"
| "insort_by_risk a (b # bs) =
    (if score_gt (js_sub (fp_risk a) (fp_risk b)) (Finite 0)
     then b # insort_by_risk a bs
     else a # b # bs)"

definition sort_by_risk :: "jsnum FrontierPoint list \<Rightarrow> jsnum FrontierPoint list" where
  "sort_by_risk ps = foldr insort_by_risk ps []"

text \<open>
  \<^verbatim>\<open>generateEfficientFrontier\<close>: 101 target returns between the smallest and the
  largest expected return (\<^verbatim>\<open>Math.min()\<close> is \<^verbatim>\<open>Infinity\<close> and
  \<^verbatim>\<open>Math.max()\<close> is \<^verbatim>\<open>-Infinity\<close> when there is none), a point for each, and
  the sort.
\<close>

definition frontier_point ::
    "obj \<Rightarrow> real list list \<Rightarrow> string list \<Rightarrow> jsnum \<Rightarrow> jsnum FrontierPoint option" where
  "frontier_point expectedReturns covarianceMatrix symbols targetReturn = do {
     ws \<leftarrow> meanVarianceOptimization expectedReturns covarianceMatrix symbols targetReturn;
     let portfolioReturn = calculatePortfolioReturn_js ws expectedReturns;
     variance \<leftarrow> calculatePortfolioVariance_js ws covarianceMatrix symbols;
     Some \<lparr>fp_risk = js_sqrt variance, fp_return = portfolioReturn, fp_weights = ws\<rparr>
   }"

definition frontier_target :: "obj \<Rightarrow> nat \<Rightarrow> jsnum" where
  "frontier_target expectedReturns i =
    (let numPortfolios = 100;
         rs = map snd expectedReturns;
         minReturn = (if rs = [] then PosInfinity else Finite (Min (set rs)));
         maxReturn = (if rs = [] then NegInfinity else Finite (Max (set rs)))
     in js_add minReturn
          (js_mul (Finite (real i / real numPortfolios)) (js_sub maxReturn minReturn)))"

definition generateEfficientFrontier ::
    "obj \<Rightarrow> real list list \<Rightarrow> string list \<Rightarrow> jsnum FrontierPoint list option" where
  "generateEfficientFrontier expectedReturns covarianceMatrix symbols =
    map_option sort_by_risk
      (those (map (\<lambda>i. frontier_point expectedReturns covarianceMatrix symbols
                     (frontier_target expectedReturns i))
                [0..<101]))"

text \<open>The claim's order on a frontier: every point's risk is at most the next point's.\<close>

fun risk_ascending :: "jsnum FrontierPoint list \<Rightarrow> bool" where
  "risk_ascending (a # b # ps) \<longleftrightarrow> js_le (fp_risk a) (fp_risk b) \<and> risk_ascending (b # ps)"
| "risk_ascending _ \<longleftrightarrow> True"

subsection \<open>Portfolio selector\<close>

text \<open>
  The selector is modelled on a frontier of finite numbers. The score of a point is compared
  with \<^verbatim>\<open>bestScore\<close>, which starts at \<^verbatim>\<open>-Infinity\<close>, and the Sharpe ratio
  divides by a risk that can be zero: the scores keep their special values (\<open>js_divide\<close>,
  \<open>score_minus\<close>, \<open>score_gt\<close> above).
\<close>

text \<open>
  The table \<^verbatim>\<open>riskLevels\<close> and \<^verbatim>\<open>riskLevels[riskTolerance] || 0.16\<close>. The
  table is an object literal: a key that names a member inherited from
  \<^verbatim>\<open>Object.prototype\<close> finds that member, a function or an object, which is truthy and
  is kept by \<^verbatim>\<open>|| 0.16\<close>; it is not a number (\<open>None\<close>), and
  \<^verbatim>\<open>targetRisk * 1.1\<close> is then \<^verbatim>\<open>NaN\<close>. Any other unknown key reads
  \<^verbatim>\<open>undefined\<close> and gets the default.
\<close>

definition riskLevels :: "(string \<times> real) list" where
  "riskLevels =
    [(''conservative'', 12 / 100), (''moderate'', 16 / 100),
     (''aggressive'', 22 / 100), (''very_aggressive'', 30 / 100)]"

definition object_prototype_members :: "string list" where
  "object_prototype_members =
    [''constructor'', ''__defineGetter__'', ''__defineSetter__'', ''hasOwnProperty'',
     ''__lookupGetter__'', ''__lookupSetter__'', ''isPrototypeOf'', ''propertyIsEnumerable'',
     ''toString'', ''valueOf'', ''__proto__'', ''toLocaleString'']"

definition targetRisk_of :: "string \<Rightarrow> real option" where
  "targetRisk_of riskTolerance =
    (case map_of riskLevels riskTolerance of
       Some level \<Rightarrow> Some level
     | None \<Rightarrow> if riskTolerance \<in> set object_prototype_members then None else Some (16 / 100))"





subsection \<open>Rebalance advisor\<close>

record Holding =
  h_symbol :: string
  h_quantity :: real
  h_averageCost :: real

text \<open>\<^verbatim>\<open>calculateCurrentWeights\<close>. A total value of zero makes every weight
  non-finite.\<close>

definition calculateCurrentWeights :: "Holding list \<Rightarrow> real \<Rightarrow> obj option" where
  "calculateCurrentWeights holdings totalValue =
    (if totalValue = 0 \<and> holdings \<noteq> [] then None
     else Some (fold (\<lambda>holding ws.
                  let v = h_quantity holding * h_averageCost holding
                  in AList.update (h_symbol holding) (v / totalValue) ws) holdings []))"

text \<open>\<^verbatim>\<open>Math.round\<close> rounds to the nearest integer, a half upwards.\<close>

definition js_round :: "real \<Rightarrow> real" where
  "js_round x = of_int \<lfloor>x + 1 / 2\<rfloor>"

text \<open>The read \<^verbatim>\<open>weights[symbol] || 0\<close>.\<close>

definition weight_or_zero :: "obj \<Rightarrow> string \<Rightarrow> real" where
  "weight_or_zero ws s = (case map_of ws s of None \<Rightarrow> 0 | Some w \<Rightarrow> w)"

record Recommendation =
  rec_symbol :: string
  rec_currentWeight :: real
  rec_targetWeight :: real
  rec_action :: string
  rec_amount :: real

text \<open>The body of the loop over \<^verbatim>\<open>symbols\<close>: the recommendation pushed for a symbol,
  if any.\<close>

definition recommendation_for :: "obj \<Rightarrow> obj \<Rightarrow> real \<Rightarrow> string \<Rightarrow> Recommendation list" where
  "recommendation_for currentWeights optimalWeights totalValue s =
    (let currentWeight = weight_or_zero currentWeights s;
         targetWeight = weight_or_zero optimalWeights s;
         difference = targetWeight - currentWeight
     in if \<bar>difference\<bar> > 1 / 100
        then (let act = (if difference > 0 then ''BUY'' else ''SELL'');
                  amount = \<bar>difference * totalValue\<bar>
              in [\<lparr>rec_symbol = s,
                    rec_currentWeight = js_round (currentWeight * 10000) / 100,
                    rec_targetWeight = js_round (targetWeight * 10000) / 100,
                    rec_action = act,
                    rec_amount = js_round (amount * 100) / 100\<rparr>])
        else [])"

text \<open>\<^verbatim>\<open>generateRebalanceRecommendations\<close>: the loop, then a stable sort with the
  comparator \<^verbatim>\<open>|b.targetWeight - b.currentWeight| - |a.targetWeight - a.currentWeight|\<close>
  on the fields of the recommendations.\<close>

definition generateRebalanceRecommendations ::
    "obj \<Rightarrow> obj \<Rightarrow> real \<Rightarrow> string list \<Rightarrow> Recommendation list" where
  "generateRebalanceRecommendations currentWeights optimalWeights totalValue symbols =
    sort_key (\<lambda>r. - \<bar>rec_targetWeight r - rec_currentWeight r\<bar>)
      (concat (map (recommendation_for currentWeights optimalWeights totalValue) symbols))"

text \<open>The difference the advisor works with, \<open>optimalWeight - currentWeight\<close>, a missing
  entry counting as 0.\<close>

definition weight_delta :: "obj \<Rightarrow> obj \<Rightarrow> string \<Rightarrow> real" where
  "weight_delta currentWeights optimalWeights s =
    weight_or_zero optimalWeights s - weight_or_zero currentWeights s"

subsection \<open>Monte Carlo simulator\<close>

text \<open>A matrix entry of finite numbers, \<open>None\<close> where the read is
  \<^verbatim>\<open>undefined\<close> or throws.\<close>

definition entry :: "real list list \<Rightarrow> nat \<Rightarrow> nat \<Rightarrow> real option" where
  "entry m i j = (if i < length m \<and> j < length (m ! i) then Some (m ! i ! j) else None)"

text \<open>
  \<^verbatim>\<open>choleskyDecomposition\<close>: the matrix \<open>L\<close> starts as \<open>n\<close> rows of \<open>n\<close> zeros and is
  filled cell by cell, row by row up to the diagonal; \<open>chol_cell\<close> is the value stored in
  \<open>L[i][j]\<close>, computed from the cells stored before.
\<close>

definition chol_cell :: "real list list \<Rightarrow> real list list \<Rightarrow> nat \<Rightarrow> nat \<Rightarrow> real option" where
  "chol_cell matrix L i j =
    (if i = j
     then do {
       m \<leftarrow> entry matrix i i;
       let sum = fold (\<lambda>k s. s + L ! i ! k * L ! i ! k) [0..<j] 0;
       Some (sqrt (max 0 (m - sum)))
     }
     else
       (let sum = fold (\<lambda>k s. s + L ! i ! k * L ! j ! k) [0..<j] 0
        in if L ! j ! j \<noteq> 0
           then do { m \<leftarrow> entry matrix i j; Some ((m - sum) / (L ! j ! j)) }
           else Some 0))"

definition choleskyDecomposition :: "real list list \<Rightarrow> real list list option" where
  "choleskyDecomposition matrix =
    (let n = length matrix
     in fold (\<lambda>i acc. fold (\<lambda>j acc'. do {
                 L \<leftarrow> acc';
                 x \<leftarrow> chol_cell matrix L i j;
                 Some (L[i := (L ! i)[j := x]])
               }) [0..<Suc i] acc)
          [0..<n] (Some (replicate n (replicate n 0))))"

text \<open>\<^verbatim>\<open>Array.from({ length: n }, () => this.normalRandom())\<close>: \<open>n\<close> draws in order.\<close>

fun draw_normals :: "nat \<Rightarrow> rng \<Rightarrow> (real list \<times> rng) option" where
  "draw_normals 0 rng = Some ([], rng)"
| "draw_normals (Suc n) rng = do {
     (z, rng1) \<leftarrow> normalRandom rng;
     (zs, rng2) \<leftarrow> draw_normals n rng1;
     Some (z # zs, rng2)
   }"

text \<open>
  The body of the loop of \<^verbatim>\<open>generateCorrelatedReturnsCholesky\<close> for asset \<open>i\<close>: the
  correlated shock \<open>\<Sum>j\<le>i. L[i][j] * z[j]\<close>, then
  \<^verbatim>\<open>dailyExpectedReturn + correlatedReturns[i] * dailyVolatility\<close> with
  \<^verbatim>\<open>dailyVolatility = Math.sqrt(choleskyMatrix[i][i] / TRADING_DAYS)\<close>.
\<close>

definition correlated_return :: "string list \<Rightarrow> obj \<Rightarrow> real list list \<Rightarrow> real list \<Rightarrow> nat \<Rightarrow> real option" where
  "correlated_return symbols expectedReturns choleskyMatrix independentNormals i = do {
     shock \<leftarrow> fold (\<lambda>j acc. do {
                 s \<leftarrow> acc;
                 l \<leftarrow> entry choleskyMatrix i j;
                 Some (s + l * independentNormals ! j)
               }) [0..<Suc i] (Some 0);
     r \<leftarrow> map_of expectedReturns (symbols ! i);
     lii \<leftarrow> entry choleskyMatrix i i;
     if lii < 0 then None
     else (let dailyExpectedReturn = r / real TRADING_DAYS;
               dailyVolatility = sqrt (lii / real TRADING_DAYS)
           in Some (dailyExpectedReturn + shock * dailyVolatility))
   }"

definition generateCorrelatedReturnsCholesky ::
    "string list \<Rightarrow> obj \<Rightarrow> real list list \<Rightarrow> rng \<Rightarrow> (real list \<times> rng) option" where
  "generateCorrelatedReturnsCholesky symbols expectedReturns choleskyMatrix rng = do {
     (independentNormals, rng') \<leftarrow> draw_normals (length symbols) rng;
     correlatedReturns \<leftarrow> those (map (correlated_return symbols expectedReturns choleskyMatrix
                                  independentNormals) [0..<length symbols]);
     Some (correlatedReturns, rng')
   }"

text \<open>One simulated day: the weighted sum of the asset returns, and
  \<^verbatim>\<open>portfolioValue *= 1 + dailyReturn\<close>.\<close>

definition weighted_return :: "obj \<Rightarrow> string list \<Rightarrow> real list \<Rightarrow> real option" where
  "weighted_return ws symbols correlatedReturns =
    fold (\<lambda>i acc. do {
            dailyReturn \<leftarrow> acc;
            w \<leftarrow> map_of ws (symbols ! i);
            Some (dailyReturn + w * correlatedReturns ! i)
          }) [0..<length symbols] (Some 0)"

definition simulate_day ::
    "obj \<Rightarrow> obj \<Rightarrow> real list list \<Rightarrow> string list \<Rightarrow> real \<Rightarrow> rng \<Rightarrow> (real \<times> rng) option" where
  "simulate_day ws expectedReturns choleskyMatrix symbols portfolioValue rng = do {
     (correlatedReturns, rng') \<leftarrow> generateCorrelatedReturnsCholesky symbols expectedReturns choleskyMatrix rng;
     dailyReturn \<leftarrow> weighted_return ws symbols correlatedReturns;
     Some (portfolioValue * (1 + dailyReturn), rng')
   }"

fun simulate_days ::
    "nat \<Rightarrow> obj \<Rightarrow> obj \<Rightarrow> real list list \<Rightarrow> string list \<Rightarrow> real \<Rightarrow> rng \<Rightarrow> (real \<times> rng) option" where
  "simulate_days 0 ws expectedReturns choleskyMatrix symbols portfolioValue rng =
     Some (portfolioValue, rng)"
| "simulate_days (Suc d) ws expectedReturns choleskyMatrix symbols portfolioValue rng = do {
     (v, rng') \<leftarrow> simulate_day ws expectedReturns choleskyMatrix symbols portfolioValue rng;
     simulate_days d ws expectedReturns choleskyMatrix symbols v rng'
   }"

text \<open>The loop over the scenarios: the terminal values in the order they are pushed.\<close>

fun simulate_scenarios ::
    "nat \<Rightarrow> obj \<Rightarrow> obj \<Rightarrow> real list list \<Rightarrow> string list \<Rightarrow> real \<Rightarrow> rng \<Rightarrow> (real list \<times> rng) option" where
  "simulate_scenarios 0 ws expectedReturns choleskyMatrix symbols initialValue rng = Some ([], rng)"
| "simulate_scenarios (Suc k) ws expectedReturns choleskyMatrix symbols initialValue rng = do {
     (v, rng1) \<leftarrow> simulate_days TRADING_DAYS ws expectedReturns choleskyMatrix symbols initialValue rng;
     (vs, rng2) \<leftarrow> simulate_scenarios k ws expectedReturns choleskyMatrix symbols initialValue rng1;
     Some (v # vs, rng2)
   }"

record SimulationResult =
  mc_scenarios :: nat
  mc_successRate :: real
  mc_expectedFinalValue :: real
  mc_worstCase :: real
  mc_bestCase :: real
  mc_percentile_5 :: real
  mc_percentile_25 :: real
  mc_percentile_75 :: real
  mc_percentile_95 :: real

text \<open>\<^verbatim>\<open>results[Math.floor(results.length * p)]\<close>.\<close>

definition percentile :: "real list \<Rightarrow> real \<Rightarrow> real" where
  "percentile results p = results ! nat \<lfloor>real (length results) * p\<rfloor>"

definition summarize :: "real \<Rightarrow> real list \<Rightarrow> SimulationResult" where
  "summarize initialValue results =
    \<lparr>mc_scenarios = MONTE_CARLO_SCENARIOS,
     mc_successRate = real (length (filter (\<lambda>val. val > initialValue) results)) / real (length results),
     mc_expectedFinalValue = fold (\<lambda>val sum. sum + val) results 0 / real (length results),
     mc_worstCase = percentile results (5 / 100),
     mc_bestCase = percentile results (95 / 100),
     mc_percentile_5 = percentile results (5 / 100),
     mc_percentile_25 = percentile results (25 / 100),
     mc_percentile_75 = percentile results (75 / 100),
     mc_percentile_95 = percentile results (95 / 100)\<rparr>"

text \<open>\<^verbatim>\<open>runAdvancedMonteCarloSimulation\<close>; \<^verbatim>\<open>results.sort((a, b) => a - b)\<close> sorts the
  terminal values ascending.\<close>

definition runAdvancedMonteCarloSimulation ::
    "obj \<Rightarrow> obj \<Rightarrow> real list list \<Rightarrow> real \<Rightarrow> string list \<Rightarrow> rng \<Rightarrow> (SimulationResult \<times> rng) option" where
  "runAdvancedMonteCarloSimulation ws expectedReturns covarianceMatrix initialValue symbols rng = do {
     choleskyMatrix \<leftarrow> choleskyDecomposition covarianceMatrix;
     (results, rng') \<leftarrow> simulate_scenarios MONTE_CARLO_SCENARIOS ws expectedReturns choleskyMatrix
                          symbols initialValue rng;
     Some (summarize initialValue (sort results), rng')
   }"

subsection \<open>What a run reads of the random source\<close>

text \<open>
  A computation that draws from the supply \<open>consumes a prefix\<close> when each of its results
  is fixed by the values it has consumed: the same values followed by any other supply give
  the same result and leave that other supply.
\<close>

definition consumes_prefix :: "(rng \<Rightarrow> ('a \<times> rng) option) \<Rightarrow> bool" where
  "consumes_prefix f \<longleftrightarrow>
    (\<forall>rng x rest. f rng = Some (x, rest) \<longrightarrow>
       (\<exists>used. rng = used @ rest \<and> (\<forall>rng'. f (used @ rng') = Some (x, rng'))))"

subsection \<open>Risk metrics calculator\<close>

text \<open>
  The risk metrics are modelled on weights that are finite numbers:
  \<^verbatim>\<open>calculatePortfolioReturn\<close> and \<^verbatim>\<open>calculatePortfolioVariance\<close> as they
  compute on such weights, \<open>None\<close> where a read is \<^verbatim>\<open>undefined\<close> or throws. On
  finite weights with every read defined they agree with the functions of the frontier
  builder (lemmas \<open>calculatePortfolioReturn_js_finite\<close> and
  \<open>calculatePortfolioVariance_js_finite\<close>).
\<close>

definition calculatePortfolioReturn :: "obj \<Rightarrow> obj \<Rightarrow> real option" where
  "calculatePortfolioReturn ws expectedReturns =
    fold (\<lambda>(symbol, weight) acc. do {
            portfolioReturn \<leftarrow> acc;
            r \<leftarrow> map_of expectedReturns symbol;
            Some (portfolioReturn + weight * r)
          }) ws (Some 0)"

text \<open>\<^verbatim>\<open>calculatePortfolioVariance\<close>: the double loop over the indices of \<^verbatim>\<open>symbols\<close>.\<close>

definition calculatePortfolioVariance :: "obj \<Rightarrow> real list list \<Rightarrow> string list \<Rightarrow> real option" where
  "calculatePortfolioVariance ws covarianceMatrix symbols =
    fold (\<lambda>i acc. fold (\<lambda>j acc'. do {
            variance \<leftarrow> acc';
            wi \<leftarrow> map_of ws (symbols ! i);
            wj \<leftarrow> map_of ws (symbols ! j);
            c \<leftarrow> entry covarianceMatrix i j;
            Some (variance + wi * wj * c)
          }) [0..<length symbols] acc) [0..<length symbols] (Some 0)"

text \<open>
  \<^verbatim>\<open>calculateMaxDrawdown\<close>. Without historical data \<^verbatim>\<open>Math.min()\<close> is
  \<^verbatim>\<open>Infinity\<close> and the loop \<^verbatim>\<open>for (i = 0; i < minLength; i++)\<close> does not end
  (\<open>None\<close>). \<open>portfolio_daily_return\<close> is the inner loop over the symbols of the weights,
  \<open>drawdown_step\<close> one round of the loop over the portfolio returns, on
  \<^verbatim>\<open>(cumulativeValue, maxValue, maxDrawdown)\<close>.
\<close>

definition portfolio_daily_return :: "obj \<Rightarrow> HistoricalData list \<Rightarrow> nat \<Rightarrow> real" where
  "portfolio_daily_return ws historicalData i =
    fold (\<lambda>(s, w) dailyReturn.
            case find (\<lambda>d. hd_symbol d = s) historicalData of
              None \<Rightarrow> dailyReturn
            | Some d \<Rightarrow> if i < length (hd_returns d) then dailyReturn + w * hd_returns d ! i
                        else dailyReturn) ws 0"

definition drawdown_step :: "real \<Rightarrow> real \<times> real \<times> real \<Rightarrow> real \<times> real \<times> real" where
  "drawdown_step dailyReturn st =
    (case st of (cumulativeValue, maxValue, maxDrawdown) \<Rightarrow>
      let c = cumulativeValue * (1 + dailyReturn);
          m = max maxValue c;
          drawdown = (m - c) / m
      in (c, m, max maxDrawdown drawdown))"

definition calculateMaxDrawdown :: "obj \<Rightarrow> HistoricalData list \<Rightarrow> real option" where
  "calculateMaxDrawdown ws historicalData =
    (if historicalData = [] then None
     else
       let minLength = Min (set (map (\<lambda>d. length (hd_returns d)) historicalData))
       in if minLength < 20 then Some 0
          else
            let portfolioReturns = map (portfolio_daily_return ws historicalData) [0..<minLength]
            in Some (snd (snd (fold drawdown_step portfolioReturns (1, 1, 0)))))"

text \<open>\<^verbatim>\<open>getZScore\<close>: the logarithm needs \<open>p > 0\<close> and the square root \<open>p \<le> 1\<close>.\<close>

definition getZScore :: "real \<Rightarrow> real option" where
  "getZScore confidenceLevel =
    (let p = confidenceLevel;
         c0 = 2515517 / 1000000; c1 = 802853 / 1000000; c2 = 10328 / 1000000;
         d1 = 1432788 / 1000000; d2 = 189269 / 1000000; d3 = 1308 / 1000000
     in if 0 < p \<and> p \<le> 1
        then (let t = sqrt (- 2 * ln p)
              in Some (- (t - (c0 + c1 * t + c2 * t * t) / (1 + d1 * t + d2 * t * t + d3 * t * t * t))))
        else None)"

definition calculateVaR :: "real \<Rightarrow> real \<Rightarrow> real \<Rightarrow> real option" where
  "calculateVaR expectedReturn volatility confidenceLevel = do {
     zScore \<leftarrow> getZScore confidenceLevel;
     Some (expectedReturn + zScore * volatility)
   }"

definition calculateConditionalVaR :: "real \<Rightarrow> real \<Rightarrow> real \<Rightarrow> real option" where
  "calculateConditionalVaR expectedReturn volatility confidenceLevel = do {
     zScore \<leftarrow> getZScore confidenceLevel;
     let phi = (1 / sqrt (2 * pi)) * exp (- (1 / 2) * zScore * zScore);
     Some (expectedReturn - (phi / confidenceLevel) * volatility)
   }"

record RiskMetrics =
  rm_expectedReturn :: real
  rm_volatility :: real
  rm_sharpeRatio :: real
  rm_maxDrawdown :: real
  rm_valueAtRisk :: real
  rm_conditionalVaR :: real

text \<open>
  \<^verbatim>\<open>calculateAdvancedRiskMetrics\<close>; the symbols are \<^verbatim>\<open>Object.keys(weights)\<close>. A
  negative variance makes the volatility \<^verbatim>\<open>NaN\<close> (\<open>None\<close>). Every field of the result
  is rounded with \<^verbatim>\<open>Math.round\<close>.
\<close>

definition calculateAdvancedRiskMetrics ::
    "obj \<Rightarrow> obj \<Rightarrow> real list list \<Rightarrow> HistoricalData list \<Rightarrow> RiskMetrics option" where
  "calculateAdvancedRiskMetrics ws expectedReturns covarianceMatrix historicalData = do {
     let symbols = map fst ws;
     expectedReturn \<leftarrow> calculatePortfolioReturn ws expectedReturns;
     variance \<leftarrow> calculatePortfolioVariance ws covarianceMatrix symbols;
     if variance < 0 then None
     else do {
       let volatility = sqrt variance;
       let sharpeRatio = (if volatility > 0 then (expectedReturn - RISK_FREE_RATE) / volatility else 0);
       maxDrawdown \<leftarrow> calculateMaxDrawdown ws historicalData;
       valueAtRisk \<leftarrow> calculateVaR expectedReturn volatility (5 / 100);
       conditionalVaR \<leftarrow> calculateConditionalVaR expectedReturn volatility (5 / 100);
       Some \<lparr>rm_expectedReturn = js_round (expectedReturn * 10000) / 100,
             rm_volatility = js_round (volatility * 10000) / 100,
             rm_sharpeRatio = js_round (sharpeRatio * 100) / 100,
             rm_maxDrawdown = js_round (maxDrawdown * 10000) / 100,
             rm_valueAtRisk = js_round (\<bar>valueAtRisk\<bar> * 10000) / 100,
             rm_conditionalVaR = js_round (\<bar>conditionalVaR\<bar> * 10000) / 100\<rparr>
     }
   }"

subsection \<open>Example inputs\<close>

text \<open>Three uncorrelated assets, each of annual variance 0.04.\<close>

definition three_asset_returns :: obj where
  "three_asset_returns = [(''A'', 245 / 1000), (''B'', 95 / 1000), (''C'', 5 / 1000)]"

definition three_asset_covariance :: "real list list" where
  "three_asset_covariance = [[1 / 25, 0, 0], [0, 1 / 25, 0], [0, 0, 1 / 25]]"

text \<open>Two uncorrelated assets: expected return 10% at volatility 15%, and 5% at 5%.\<close>

definition two_asset_returns :: obj where
  "two_asset_returns = [(''A'', 10 / 100), (''B'', 5 / 100)]"

definition two_asset_covariance :: "real list list" where
  "two_asset_covariance = [[225 / 10000, 0], [0, 25 / 10000]]"

text \<open>Three uncorrelated assets of annual variance 0.04 whose expected returns are 10%, 0
  and -10%: the target return in the middle of the frontier is 0.\<close>

definition centred_returns :: obj where
  "centred_returns = [(''A'', 1 / 10), (''B'', 0), (''C'', - 1 / 10)]"


text \<open>Three holdings of a portfolio worth 100000, and optimal weights for them.\<close>

definition rebalance_holdings :: "Holding list" where
  "rebalance_holdings =
    [\<lparr>h_symbol = ''A'', h_quantity = 100, h_averageCost = 10004 / 100\<rparr>,
     \<lparr>h_symbol = ''B'', h_quantity = 100, h_averageCost = 10006 / 100\<rparr>,
     \<lparr>h_symbol = ''C'', h_quantity = 100, h_averageCost = 7999 / 10\<rparr>]"

definition rebalance_current :: obj where
  "rebalance_current = [(''A'', 10004 / 100000), (''B'', 10006 / 100000), (''C'', 7999 / 10000)]"

definition rebalance_optimal :: obj where
  "rebalance_optimal = [(''A'', 20006 / 100000), (''B'', 20014 / 100000), (''C'', 5998 / 10000)]"

section \<open>Properties\<close>

subsection \<open>Auxiliary facts\<close>

lemma sqrt_one_25th: "sqrt (1 / 25) = 1 / 5"
  by (rule real_sqrt_unique) (simp_all add: power2_eq_square)

lemma those_map_Some_cong:
  "(\<And>x. x \<in> set xs \<Longrightarrow> f x = Some (g x)) \<Longrightarrow> those (map f xs) = Some (map g xs)"
  by (induction xs) simp_all

lemma those_eq_Some_D:
  "those xs = Some ys \<Longrightarrow> length ys = length xs \<and> (\<forall>i<length xs. xs ! i = Some (ys ! i))"
proof (induction xs arbitrary: ys)
  case Nil
  then show ?case by simp
next
  case (Cons x xs)
  from Cons.prems obtain y zs where x: "x = Some y" and zs: "those xs = Some zs" and ys: "ys = y # zs"
    by (auto split: option.splits)
  from Cons.IH [OF zs] x ys show ?case
    by (auto simp add: nth_Cons split: nat.splits)
qed

subsection \<open>Covariance estimator\<close>

lemma fold_plus_sum_list: "fold (\<lambda>r s. s + r) xs (a::real) = a + sum_list xs"
  by (induction xs arbitrary: a) simp_all

lemma fold_upt_sum: "fold (\<lambda>i c. c + f i) [0..<n] (a::real) = a + (\<Sum>k<n. f k)"
  by (induction n) simp_all

lemma sum_list_take_nth: "m \<le> length xs \<Longrightarrow> sum_list (take m xs) = (\<Sum>k<m. (xs ! k :: real))"
  by (simp add: sum_list_sum_nth atLeast0LessThan min_absorb2)

lemma those_map_Some: "those (map (\<lambda>i. Some (f i)) xs) = Some (map f xs)"
  by (induction xs) simp_all

lemma calculateCovariance_spec:
  assumes "min (length a) (length b) \<noteq> 1"
  shows "calculateCovariance a b = Some (sample_covariance_spec a b)"
  using assms
  by (simp add: calculateCovariance_def sample_covariance_spec_def Let_def fold_plus_sum_list
      fold_upt_sum sum_list_take_nth)

lemma sample_covariance_spec_commute: "sample_covariance_spec a b = sample_covariance_spec b a"
  by (simp add: sample_covariance_spec_def Let_def min.commute mult.commute)

lemma sample_covariance_spec_diag: "0 \<le> sample_covariance_spec a a"
proof (cases "length a = 0")
  case True
  then show ?thesis by (simp add: sample_covariance_spec_def)
next
  case False
  then have "0 \<le> real (length a) - 1" by (cases a) simp_all
  moreover have "0 \<le> (\<Sum>k<length a. (a ! k - c) * (a ! k - c))" for c
    by (rule sum_nonneg) simp
  ultimately show ?thesis
    by (simp add: sample_covariance_spec_def Let_def del: of_nat_eq_0_iff)
qed

lemma calculateCovarianceMatrix_eq:
  assumes "\<forall>d\<in>set historicalData. 2 \<le> length (hd_returns d)"
  shows "calculateCovarianceMatrix historicalData =
    Some (map (\<lambda>i. map (\<lambda>j. sample_covariance_spec (hd_returns (historicalData ! i))
        (hd_returns (historicalData ! j)) * real TRADING_DAYS) [0..<length historicalData])
      [0..<length historicalData])"
proof -
  let ?n = "length historicalData"
  have entry: "calculateCovariance (hd_returns (historicalData ! i)) (hd_returns (historicalData ! j))
      = Some (sample_covariance_spec (hd_returns (historicalData ! i)) (hd_returns (historicalData ! j)))"
    if "i < ?n" "j < ?n" for i j
  proof -
    from that assms have "2 \<le> length (hd_returns (historicalData ! i))"
      "2 \<le> length (hd_returns (historicalData ! j))" by simp_all
    then have "min (length (hd_returns (historicalData ! i))) (length (hd_returns (historicalData ! j))) \<noteq> 1"
      by simp
    then show ?thesis by (rule calculateCovariance_spec)
  qed
  have row: "those (map (\<lambda>j. map_option (\<lambda>c. c * real TRADING_DAYS)
           (calculateCovariance (hd_returns (historicalData ! i)) (hd_returns (historicalData ! j))))
       [0..<?n]) = Some (map (\<lambda>j. sample_covariance_spec (hd_returns (historicalData ! i))
        (hd_returns (historicalData ! j)) * real TRADING_DAYS) [0..<?n])" if "i < ?n" for i
  proof -
    have "map (\<lambda>j. map_option (\<lambda>c. c * real TRADING_DAYS)
           (calculateCovariance (hd_returns (historicalData ! i)) (hd_returns (historicalData ! j)))) [0..<?n]
      = map (\<lambda>j. Some (sample_covariance_spec (hd_returns (historicalData ! i))
        (hd_returns (historicalData ! j)) * real TRADING_DAYS)) [0..<?n]"
      using that by (intro map_cong refl) (simp add: entry)
    then show ?thesis by (simp only: those_map_Some)
  qed
  have "map (\<lambda>i. those (map (\<lambda>j. map_option (\<lambda>c. c * real TRADING_DAYS)
           (calculateCovariance (hd_returns (historicalData ! i)) (hd_returns (historicalData ! j))))
       [0..<?n])) [0..<?n]
     = map (\<lambda>i. Some (map (\<lambda>j. sample_covariance_spec (hd_returns (historicalData ! i))
        (hd_returns (historicalData ! j)) * real TRADING_DAYS) [0..<?n])) [0..<?n]"
    by (intro map_cong refl) (simp add: row)
  then show ?thesis
    by (simp only: calculateCovarianceMatrix_def Let_def those_map_Some)
qed

text \<open>
  Claim C6. For historical data in which every return series has at least two entries, the
  covariance estimator returns a square matrix whose entry \<open>(i, j)\<close> is 252 times the
  sample covariance (denominator \<open>m - 1\<close>) of the two series cut to their shared minimum
  length \<open>m\<close>; the matrix is symmetric and its diagonal is non-negative. The one-asset
  case is the instance of length 1.
\<close>

theorem covariance_matrix_symmetric_nonneg_diagonal:
  assumes "\<forall>d\<in>set historicalData. 2 \<le> length (hd_returns d)"
  shows "\<exists>M. calculateCovarianceMatrix historicalData = Some M \<and>
    length M = length historicalData \<and>
    (\<forall>i<length historicalData. length (M ! i) = length historicalData \<and> 0 \<le> M ! i ! i \<and>
      (\<forall>j<length historicalData. M ! i ! j = M ! j ! i \<and>
         M ! i ! j = 252 * sample_covariance_spec (hd_returns (historicalData ! i))
                        (hd_returns (historicalData ! j))))"
  unfolding calculateCovarianceMatrix_eq [OF assms]
  using sample_covariance_spec_diag
  by (simp add: TRADING_DAYS_def sample_covariance_spec_commute)

theorem covariance_matrix_single_asset_witness:
  "calculateCovarianceMatrix [\<lparr>hd_symbol = ''AAPL'', hd_prices = [100, 110, 99], hd_returns = [1/10, -1/10]\<rparr>]
     = Some [[126/25]]"
proof -
  let ?H = "[\<lparr>hd_symbol = ''AAPL'', hd_prices = [100, 110, 99], hd_returns = [1/10, -1/10]\<rparr>]"
  have h: "\<forall>d\<in>set ?H. 2 \<le> length (hd_returns d)" by simp
  from covariance_matrix_symmetric_nonneg_diagonal [OF h]
  obtain M where M: "calculateCovarianceMatrix ?H = Some M" "length M = 1" "length (M ! 0) = 1"
    "M ! 0 ! 0 = 252 * sample_covariance_spec [1/10, -1/10] [1/10, -1/10]"
    by auto
  have "M ! 0 ! 0 = 126 / 25"
    unfolding M(4) by (simp add: sample_covariance_spec_def lessThan_Suc numeral_2_eq_2)
  with M(3) have "M ! 0 = [126 / 25]" by (simp add: list_eq_iff_nth_eq)
  with M(2) have "M = [[126 / 25]]" by (simp add: list_eq_iff_nth_eq)
  with M(1) show ?thesis by simp
qed

subsection \<open>Return modeler\<close>

lemma price_loop_length_last:
  "price_loop drift diffusion ixs ps rng = Some (ps', rng') \<Longrightarrow> ps \<noteq> [] \<Longrightarrow>
     length ps' = length ps + length ixs \<and> last ps' = last ps"
proof (induction ixs arbitrary: ps rng)
  case Nil
  then show ?case by simp
next
  case (Cons i ixs)
  from Cons.prems(1) obtain z rng1 where
    step: "price_loop drift diffusion ixs (ps ! (i - 1) / exp (drift + z * diffusion) # ps) rng1
             = Some (ps', rng')"
    by (auto split: option.splits if_splits)
  from Cons.IH [OF step] Cons.prems(2) show ?case by simp
qed

lemma generateRealisticPriceHistory_shape:
  assumes "generateRealisticPriceHistory currentPrice annualVolatility annualReturn days rng
             = Some (ps, rng')"
  shows "length ps = days - 1" and "2 \<le> days \<Longrightarrow> last ps = currentPrice"
proof -
  from assms obtain qs where
    loop: "price_loop (annualReturn * (1 / real TRADING_DAYS))
             (annualVolatility * sqrt (1 / real TRADING_DAYS)) [1..<days] [currentPrice] rng
           = Some (qs, rng')" and ps: "ps = drop 1 qs"
    by (auto simp add: generateRealisticPriceHistory_def Let_def split: option.splits)
  from price_loop_length_last [OF loop]
  have len: "length qs = 1 + (days - 1)" and lst: "last qs = currentPrice" by simp_all
  from len ps show "length ps = days - 1" by simp
  assume "2 \<le> days"
  with len have "1 < length qs" by simp
  with ps lst show "last ps = currentPrice" by (simp add: last_drop)
qed

lemma next_nonzero_pos: "0 < c \<Longrightarrow> c < 1 \<Longrightarrow> next_nonzero (c # xs) = Some (c, xs)"
  by simp

lemma normalRandom_two:
  "0 < u \<Longrightarrow> u < 1 \<Longrightarrow> 0 < v \<Longrightarrow> v < 1 \<Longrightarrow>
     normalRandom (u # v # xs) = Some (sqrt (- 2 * ln u) * cos (2 * pi * v), xs)"
  by (simp add: normalRandom_def)

lemma price_loop_constant_supply:
  assumes c: "0 < c" "c < 1"
  shows "a - 1 < length ps \<Longrightarrow>
    \<exists>ps'. price_loop drift diffusion [a..<a + m] ps (replicate (2 * m) c @ rest) = Some (ps', rest)"
proof (induction m arbitrary: a ps)
  case 0
  then show ?case by simp
next
  case (Suc m)
  have upt: "[a..<a + Suc m] = a # [Suc a..<Suc a + m]"
    by (simp add: upt_conv_Cons)
  have draws: "replicate (2 * Suc m) c @ rest = c # c # replicate (2 * m) c @ rest"
    by simp
  let ?ps = "ps ! (a - 1) / exp (drift + sqrt (- 2 * ln c) * cos (2 * pi * c) * diffusion) # ps"
  from Suc.prems have "Suc a - 1 < length ?ps" by simp
  from Suc.IH [OF this] obtain ps' where
    "price_loop drift diffusion [Suc a..<Suc a + m] ?ps (replicate (2 * m) c @ rest) = Some (ps', rest)"
    by blast
  with Suc.prems show ?case
    unfolding upt draws by (simp add: normalRandom_two c)
qed

lemma generateRealisticPriceHistory_returns:
  assumes "0 < c" "c < 1" "1 \<le> days"
  shows "\<exists>ps. generateRealisticPriceHistory currentPrice annualVolatility annualReturn days
           (replicate (2 * (days - 1)) c @ rest) = Some (ps, rest)"
proof -
  from assms(3) have d: "[1..<days] = [1..<1 + (days - 1)]" by simp
  have "1 - 1 < length [currentPrice]" by simp
  from price_loop_constant_supply [OF assms(1,2) this]
  obtain qs where "price_loop (annualReturn * (1 / real TRADING_DAYS))
             (annualVolatility * sqrt (1 / real TRADING_DAYS)) [1..<1 + (days - 1)] [currentPrice]
             (replicate (2 * (days - 1)) c @ rest) = Some (qs, rest)"
    by blast
  then show ?thesis
    unfolding generateRealisticPriceHistory_def Let_def d by simp
qed

text \<open>
  Claim C4 (what the code does). Whenever the return modeler is run with
  \<open>days = HISTORICAL_DAYS = 252\<close> and returns, the series has 251 points, one fewer
  than \<open>H = 252\<close>: the loop makes 251 rounds on top of the current price and
  \<^verbatim>\<open>slice(1)\<close> then drops one element. Its last element is the current price.
\<close>

theorem price_history_has_251_points:
  assumes "generateRealisticPriceHistory currentPrice annualVolatility annualReturn HISTORICAL_DAYS rng
             = Some (ps, rng')"
  shows "length ps = 251 \<and> last ps = currentPrice"
  using generateRealisticPriceHistory_shape [OF assms] by (simp add: HISTORICAL_DAYS_def)

theorem price_history_has_251_points_witness:
  "\<exists>ps. generateRealisticPriceHistory 100 (25 / 100) (15 / 100) HISTORICAL_DAYS
           (replicate 502 (1 / 2)) = Some (ps, []) \<and> length ps = 251 \<and> last ps = 100"
proof -
  from generateRealisticPriceHistory_returns [of "1 / 2" HISTORICAL_DAYS 100 "25 / 100" "15 / 100" "[]"]
  obtain ps where ps: "generateRealisticPriceHistory 100 (25 / 100) (15 / 100) HISTORICAL_DAYS
           (replicate 502 (1 / 2)) = Some (ps, [])"
    by (auto simp add: HISTORICAL_DAYS_def)
  from price_history_has_251_points [OF ps] ps show ?thesis by blast
qed

subsection \<open>Efficient frontier builder: weights\<close>

lemma set_insort_by_risk: "set (insort_by_risk a bs) = insert a (set bs)"
  by (induction bs) auto

lemma set_sort_by_risk: "set (sort_by_risk ps) = set ps"
  by (induction ps) (simp_all add: sort_by_risk_def set_insort_by_risk)

lemma length_insort_by_risk: "length (insort_by_risk a bs) = Suc (length bs)"
  by (induction bs) simp_all

lemma length_sort_by_risk: "length (sort_by_risk ps) = length ps"
  by (induction ps) (simp_all add: sort_by_risk_def length_insort_by_risk)

text \<open>The builder returns whenever the matrix has a row for every symbol.\<close>

lemma frontier_point_returns:
  assumes "length symbols \<le> length covarianceMatrix"
  shows "\<exists>p. frontier_point expectedReturns covarianceMatrix symbols targetReturn = Some p"
proof -
  from assms have "\<exists>ws. meanVarianceOptimization expectedReturns covarianceMatrix symbols targetReturn
      = Some ws"
    by (auto simp add: meanVarianceOptimization_def twoAssetOptimization_def
        multiAssetHeuristicOptimization_def Let_def)
  then obtain ws where ws: "meanVarianceOptimization expectedReturns covarianceMatrix symbols
      targetReturn = Some ws" by blast
  from assms obtain v where v: "calculatePortfolioVariance_js ws covarianceMatrix symbols = Some v"
    by (simp add: calculatePortfolioVariance_js_def Let_def)
  show ?thesis
    by (simp add: frontier_point_def ws v)
qed

lemma generateEfficientFrontier_returns:
  assumes "length symbols \<le> length covarianceMatrix"
  shows "generateEfficientFrontier expectedReturns covarianceMatrix symbols
    = Some (sort_by_risk (map (\<lambda>i. the (frontier_point expectedReturns covarianceMatrix symbols
                (frontier_target expectedReturns i))) [0..<101]))"
proof -
  have "frontier_point expectedReturns covarianceMatrix symbols (frontier_target expectedReturns i)
      = Some (the (frontier_point expectedReturns covarianceMatrix symbols
                (frontier_target expectedReturns i)))" for i
    using frontier_point_returns [OF assms, of expectedReturns "frontier_target expectedReturns i"]
    by auto
  then have "those (map (\<lambda>i. frontier_point expectedReturns covarianceMatrix symbols
                     (frontier_target expectedReturns i)) [0..<101])
      = Some (map (\<lambda>i. the (frontier_point expectedReturns covarianceMatrix symbols
                (frontier_target expectedReturns i))) [0..<101])"
    by (intro those_map_Some_cong)
  then show ?thesis by (simp add: generateEfficientFrontier_def)
qed

lemma frontier_point_in_frontier:
  assumes "length symbols \<le> length covarianceMatrix" and "i < 101"
    and "frontier_point expectedReturns covarianceMatrix symbols (frontier_target expectedReturns i)
           = Some p"
  shows "\<exists>fr. generateEfficientFrontier expectedReturns covarianceMatrix symbols = Some fr \<and>
     length fr = 101 \<and> p \<in> set fr"
proof -
  let ?pts = "map (\<lambda>i. the (frontier_point expectedReturns covarianceMatrix symbols
                (frontier_target expectedReturns i))) [0..<101]"
  from assms(2) have "?pts ! i = the (frontier_point expectedReturns covarianceMatrix symbols
                (frontier_target expectedReturns i))"
    by (simp only: nth_map_upt) simp
  with assms(3) have "?pts ! i = p" by simp
  moreover from assms(2) have "i < length ?pts" by simp
  ultimately have "p \<in> set ?pts" by (metis nth_mem)
  then have "p \<in> set (sort_by_risk ?pts)" by (simp only: set_sort_by_risk)
  moreover have "length (sort_by_risk ?pts) = 101" by (simp add: length_sort_by_risk)
  ultimately show ?thesis
    unfolding generateEfficientFrontier_returns [OF assms(1)] by blast
qed

text \<open>The heuristic on the three assets of variance 0.04, at the lowest target return.\<close>

lemma three_asset_scores:
  "heuristic_scores three_asset_returns three_asset_covariance [''A'', ''B'', ''C'']
     = [Finite 1, Finite (1 / 4), Finite 0]"
  by (simp add: heuristic_scores_def three_asset_returns_def three_asset_covariance_def
      number_at_def cell_def js_sub_def js_divide_def js_max_def RISK_FREE_RATE_def
      sqrt_one_25th upt_rec[of 0] upt_rec[of 1] upt_rec[of 2])

lemma three_asset_base_weights:
  "base_weights [''A'', ''B'', ''C''] [Finite 1, Finite (1 / 4), Finite 0]
     = [(''A'', Finite (4 / 5)), (''B'', Finite (1 / 5)), (''C'', Finite 0)]"
  by (simp add: base_weights_def js_divide_def upt_rec[of 0] upt_rec[of 1] upt_rec[of 2] Let_def)

lemma three_asset_current_return:
  "calculatePortfolioReturn_js [(''A'', Finite (4 / 5)), (''B'', Finite (1 / 5)), (''C'', Finite 0)]
     three_asset_returns = Finite (215 / 1000)"
  by (simp add: calculatePortfolioReturn_js_def three_asset_returns_def number_at_def)

lemma three_asset_nudge:
  "nudge three_asset_returns [''A'', ''B'', ''C''] (Finite (- 42 / 43)) (Finite (215 / 1000))
     [(''A'', Finite (4 / 5)), (''B'', Finite (1 / 5)), (''C'', Finite 0)]
   = [(''A'', Finite (- 836 / 9245)), (''B'', Finite (1051 / 9245)), (''C'', Finite 0)]"
  by (simp add: nudge_def three_asset_returns_def number_at_def weight_at_def js_divide_def)

lemma three_asset_renormalize:
  "renormalize [''A'', ''B'', ''C'']
     [(''A'', Finite (- 836 / 9245)), (''B'', Finite (1051 / 9245)), (''C'', Finite 0)]
   = [(''A'', Finite (- 836 / 215)), (''B'', Finite (1051 / 215)), (''C'', Finite 0)]"
  by (simp add: renormalize_def weight_at_def js_divide_def)

lemma three_asset_lowest_target: "frontier_target three_asset_returns 0 = Finite (1 / 200)"
  by (simp add: frontier_target_def three_asset_returns_def js_sub_def)

lemma three_asset_lowest_weights:
  "multiAssetHeuristicOptimization three_asset_returns three_asset_covariance [''A'', ''B'', ''C'']
     (Finite (1 / 200))
   = Some [(''A'', Finite (- 836 / 215)), (''B'', Finite (1051 / 215)), (''C'', Finite 0)]"
proof -
  have "length three_asset_covariance = 3" by (simp add: three_asset_covariance_def)
  moreover have "js_div (js_sub (Finite (1 / 200)) (Finite (215 / 1000))) (Finite (215 / 1000))
      = Finite (- 42 / 43)"
    by (simp add: js_sub_def js_divide_def)
  ultimately show ?thesis
    using three_asset_nudge three_asset_renormalize
    by (simp add: multiAssetHeuristicOptimization_def three_asset_scores three_asset_base_weights
        three_asset_current_return Let_def js_sub_def)
qed

lemma frontier_point_weights:
  "frontier_point expectedReturns covarianceMatrix symbols targetReturn = Some p \<Longrightarrow>
     meanVarianceOptimization expectedReturns covarianceMatrix symbols targetReturn
       = Some (fp_weights p)"
  by (auto simp add: frontier_point_def bind_eq_Some_conv)

text \<open>
  Claim C1 (what the code does). For three uncorrelated assets of volatility 20% with
  expected returns 24.5%, 9.5% and 0.5%, the frontier builder returns a frontier, and the
  point of its lowest target return (0.5%) has the weights \<open>-836/215\<close> (about -3.89),
  \<open>1051/215\<close> (about 4.89) and 0: they sum to 1, but one is negative and one is above 1.
  The nudge factor \<open>1 + adjustment * returnRatio\<close> of the heuristic is negative there and
  nothing clips the weights afterwards, as \<^verbatim>\<open>twoAssetOptimization\<close> does.
\<close>

theorem frontier_has_weights_outside_unit_interval:
  "\<exists>fr. generateEfficientFrontier three_asset_returns three_asset_covariance [''A'', ''B'', ''C'']
          = Some fr \<and>
     (\<exists>p\<in>set fr. fp_weights p
        = [(''A'', Finite (- 836 / 215)), (''B'', Finite (1051 / 215)), (''C'', Finite 0)])"
proof -
  have len: "length [''A'', ''B'', ''C''] \<le> length three_asset_covariance"
    by (simp add: three_asset_covariance_def)
  from frontier_point_returns [OF len] obtain p where
    p: "frontier_point three_asset_returns three_asset_covariance [''A'', ''B'', ''C'']
          (frontier_target three_asset_returns 0) = Some p"
    by blast
  from frontier_point_weights [OF p]
  have "fp_weights p
      = [(''A'', Finite (- 836 / 215)), (''B'', Finite (1051 / 215)), (''C'', Finite 0)]"
    by (simp add: meanVarianceOptimization_def three_asset_lowest_target three_asset_lowest_weights)
  moreover from frontier_point_in_frontier [OF len _ p]
  obtain fr where "generateEfficientFrontier three_asset_returns three_asset_covariance
      [''A'', ''B'', ''C''] = Some fr" "p \<in> set fr"
    by auto
  ultimately show ?thesis by blast
qed

subsection \<open>Efficient frontier builder: order\<close>

text \<open>The two-asset solution at the midpoint of the returns 10% and 5%.\<close>

lemma two_asset_midpoint:
  "twoAssetOptimization two_asset_returns two_asset_covariance [''A'', ''B''] (Finite (75 / 1000))
     = Some [(''A'', Finite (1 / 2)), (''B'', Finite (1 / 2))]"
  by (simp add: twoAssetOptimization_def two_asset_returns_def two_asset_covariance_def
      number_at_def symbol_at_def cell_def js_sub_def js_divide_def js_max_def js_min_def Let_def)

text \<open>
  The three assets of variance 0.04 with expected returns 10%, 0 and -10%, at the target
  return 0 in the middle of the frontier: the base weights are 1, 0 and 0, the nudge takes
  them all to 0, and the renormalisation divides 0 by their sum 0.
\<close>

lemma centred_scores:
  "heuristic_scores centred_returns three_asset_covariance [''A'', ''B'', ''C'']
     = [Finite (11 / 40), Finite 0, Finite 0]"
  by (simp add: heuristic_scores_def centred_returns_def three_asset_covariance_def
      number_at_def cell_def js_sub_def js_divide_def js_max_def RISK_FREE_RATE_def
      sqrt_one_25th upt_rec[of 0] upt_rec[of 1] upt_rec[of 2])

lemma centred_base_weights:
  "base_weights [''A'', ''B'', ''C''] [Finite (11 / 40), Finite 0, Finite 0]
     = [(''A'', Finite 1), (''B'', Finite 0), (''C'', Finite 0)]"
  by (simp add: base_weights_def js_divide_def upt_rec[of 0] upt_rec[of 1] upt_rec[of 2] Let_def)

lemma centred_current_return:
  "calculatePortfolioReturn_js [(''A'', Finite 1), (''B'', Finite 0), (''C'', Finite 0)]
     centred_returns = Finite (1 / 10)"
  by (simp add: calculatePortfolioReturn_js_def centred_returns_def number_at_def)

lemma centred_nudge:
  "nudge centred_returns [''A'', ''B'', ''C''] (Finite (- 1)) (Finite (1 / 10))
     [(''A'', Finite 1), (''B'', Finite 0), (''C'', Finite 0)]
   = [(''A'', Finite 0), (''B'', Finite 0), (''C'', Finite 0)]"
  by (simp add: nudge_def centred_returns_def number_at_def weight_at_def js_divide_def)

lemma centred_renormalize:
  "renormalize [''A'', ''B'', ''C''] [(''A'', Finite 0), (''B'', Finite 0), (''C'', Finite 0)]
   = [(''A'', NaN), (''B'', NaN), (''C'', NaN)]"
  by (simp add: renormalize_def weight_at_def js_divide_def)

lemma centred_middle_target: "frontier_target centred_returns 50 = Finite 0"
  by (simp add: frontier_target_def centred_returns_def js_sub_def)

lemma centred_middle_weights:
  "multiAssetHeuristicOptimization centred_returns three_asset_covariance [''A'', ''B'', ''C'']
     (Finite 0)
   = Some [(''A'', NaN), (''B'', NaN), (''C'', NaN)]"
proof -
  have "length three_asset_covariance = 3" by (simp add: three_asset_covariance_def)
  then show ?thesis
    using centred_nudge centred_renormalize
    by (simp add: multiAssetHeuristicOptimization_def centred_scores centred_base_weights
        centred_current_return Let_def js_sub_def js_divide_def)
qed

lemma centred_middle_point:
  "frontier_point centred_returns three_asset_covariance [''A'', ''B'', ''C'']
     (frontier_target centred_returns 50)
   = Some \<lparr>fp_risk = NaN, fp_return = NaN,
            fp_weights = [(''A'', NaN), (''B'', NaN), (''C'', NaN)]\<rparr>"
proof -
  have "calculatePortfolioReturn_js [(''A'', NaN), (''B'', NaN), (''C'', NaN)] centred_returns = NaN"
    by (simp add: calculatePortfolioReturn_js_def inf_of_sign_def)
  moreover have "calculatePortfolioVariance_js [(''A'', NaN), (''B'', NaN), (''C'', NaN)]
      three_asset_covariance [''A'', ''B'', ''C''] = Some NaN"
    by (simp add: calculatePortfolioVariance_js_def three_asset_covariance_def weight_at_def
        cell_def inf_of_sign_def upt_rec[of 0] upt_rec[of 1] upt_rec[of 2])
  ultimately show ?thesis
    by (simp add: frontier_point_def meanVarianceOptimization_def centred_middle_target
        centred_middle_weights)
qed

text \<open>A frontier of two points or more that holds a point of risk \<^verbatim>\<open>NaN\<close> is not
  ascending, wherever the point stands.\<close>

lemma nan_risk_not_ascending:
  assumes "p \<in> set ps" and "fp_risk p = NaN" and "2 \<le> length ps"
  shows "\<not> risk_ascending ps"
  using assms
proof (induction ps rule: risk_ascending.induct)
  case (1 a b ps)
  show ?case
  proof (cases "p = a \<or> p = b")
    case True
    with "1.prems"(2) show ?thesis by (auto simp add: js_le_def)
  next
    case False
    with "1.prems"(1) have "p \<in> set ps" by simp
    then have "p \<in> set (b # ps)" "2 \<le> length (b # ps)"
      by (cases ps; simp)+
    from "1.IH" [OF this(1) "1.prems"(2) this(2)] show ?thesis by simp
  qed
qed simp_all

text \<open>
  Claim C7 (what the code does). On the three assets of variance 0.04 with expected returns
  10%, 0 and -10% the frontier builder returns 101 points, and the returned frontier is not
  ascending by risk: the point of target return 0 has the weights, the return and the risk
  \<^verbatim>\<open>NaN\<close> (the renormalisation divides 0 by 0), and a \<^verbatim>\<open>NaN\<close> risk is not at
  most, nor at least, any other risk.
\<close>

theorem frontier_with_nan_risk_not_ascending:
  "map_option length
     (generateEfficientFrontier centred_returns three_asset_covariance [''A'', ''B'', ''C''])
     = Some 101 \<and>
   map_option risk_ascending
     (generateEfficientFrontier centred_returns three_asset_covariance [''A'', ''B'', ''C''])
     = Some False"
proof -
  have len: "length [''A'', ''B'', ''C''] \<le> length three_asset_covariance"
    by (simp add: three_asset_covariance_def)
  have "(50::nat) < 101" by simp
  from frontier_point_in_frontier [OF len this centred_middle_point]
  obtain fr where fr: "generateEfficientFrontier centred_returns three_asset_covariance
      [''A'', ''B'', ''C''] = Some fr" and l: "length fr = 101"
    and p: "\<lparr>fp_risk = NaN, fp_return = NaN,
            fp_weights = [(''A'', NaN), (''B'', NaN), (''C'', NaN)]\<rparr> \<in> set fr"
    by blast
  from l have "2 \<le> length fr" by simp
  from nan_risk_not_ascending [OF p _ this] have "\<not> risk_ascending fr" by simp
  with fr l show ?thesis by simp
qed

text \<open>What holds of the order: the sort leaves a frontier without a \<^verbatim>\<open>NaN\<close> risk
  ascending, and every risk is the square root of the variance of the point's weights.\<close>

lemma comparator_positive_iff:
  "a \<noteq> NaN \<Longrightarrow> b \<noteq> NaN \<Longrightarrow> score_gt (js_sub a b) (Finite 0) = score_gt a b"
  by (cases a; cases b) (simp_all add: js_sub_def)

lemma score_gt_asym: "score_gt a b \<Longrightarrow> \<not> score_gt b a"
  by (cases a; cases b) simp_all

lemma js_le_trans: "js_le a b \<Longrightarrow> js_le b c \<Longrightarrow> js_le a c"
  by (cases a; cases b; cases c) (simp_all add: js_le_def)

lemma sorted_insort_by_risk:
  assumes "fp_risk a \<noteq> NaN" and "\<forall>b\<in>set bs. fp_risk b \<noteq> NaN"
    and "sorted_wrt (\<lambda>x y. js_le (fp_risk x) (fp_risk y)) bs"
  shows "sorted_wrt (\<lambda>x y. js_le (fp_risk x) (fp_risk y)) (insort_by_risk a bs)"
  using assms(2,3)
proof (induction bs)
  case Nil
  then show ?case by simp
next
  case (Cons b bs)
  from Cons.prems(1) have b: "fp_risk b \<noteq> NaN" by simp
  show ?case
  proof (cases "score_gt (fp_risk a) (fp_risk b)")
    case True
    then have "js_le (fp_risk b) (fp_risk a)"
      using assms(1) b by (simp add: js_le_def score_gt_asym)
    with True Cons assms(1) b show ?thesis
      by (auto simp add: comparator_positive_iff set_insort_by_risk)
  next
    case False
    then have ab: "js_le (fp_risk a) (fp_risk b)"
      using assms(1) b by (simp add: js_le_def)
    then have "\<forall>x\<in>set bs. js_le (fp_risk a) (fp_risk x)"
      using Cons.prems(2) by (auto intro: js_le_trans)
    with False ab Cons.prems(2) assms(1) b show ?thesis
      by (simp add: comparator_positive_iff)
  qed
qed

lemma sorted_sort_by_risk:
  "\<forall>p\<in>set ps. fp_risk p \<noteq> NaN \<Longrightarrow>
     sorted_wrt (\<lambda>x y. js_le (fp_risk x) (fp_risk y)) (sort_by_risk ps)"
proof (induction ps)
  case Nil
  then show ?case by (simp add: sort_by_risk_def)
next
  case (Cons a ps)
  then have "sorted_wrt (\<lambda>x y. js_le (fp_risk x) (fp_risk y)) (sort_by_risk ps)" by simp
  moreover from Cons.prems have "\<forall>b\<in>set (sort_by_risk ps). fp_risk b \<noteq> NaN"
    by (simp add: set_sort_by_risk)
  moreover from Cons.prems have "fp_risk a \<noteq> NaN" by simp
  ultimately have "sorted_wrt (\<lambda>x y. js_le (fp_risk x) (fp_risk y))
      (insort_by_risk a (sort_by_risk ps))"
    by (intro sorted_insort_by_risk)
  then show ?case by (simp add: sort_by_risk_def)
qed

lemma sorted_wrt_risk_ascending:
  "sorted_wrt (\<lambda>x y. js_le (fp_risk x) (fp_risk y)) ps \<Longrightarrow> risk_ascending ps"
  by (induction ps rule: risk_ascending.induct) simp_all

lemma frontier_ascending_without_nan:
  assumes "generateEfficientFrontier expectedReturns covarianceMatrix symbols = Some frontier"
    and "\<forall>p\<in>set frontier. fp_risk p \<noteq> NaN"
  shows "length frontier = 101" and "risk_ascending frontier"
    and "\<forall>p\<in>set frontier. \<exists>v.
        calculatePortfolioVariance_js (fp_weights p) covarianceMatrix symbols = Some v \<and>
        fp_risk p = js_sqrt v"
proof -
  let ?f = "\<lambda>i. frontier_point expectedReturns covarianceMatrix symbols
              (frontier_target expectedReturns i)"
  from assms(1) obtain pts where pts: "those (map ?f [0..<101]) = Some pts"
    and fr: "frontier = sort_by_risk pts"
    by (auto simp add: generateEfficientFrontier_def)
  from those_eq_Some_D [OF pts]
  have len: "length pts = 101" and each: "\<forall>i<101. ?f i = Some (pts ! i)"
    by (simp_all del: upt_Suc)
  from len fr show "length frontier = 101" by (simp add: length_sort_by_risk)
  from assms(2) fr have "\<forall>p\<in>set pts. fp_risk p \<noteq> NaN" by (simp add: set_sort_by_risk)
  then show "risk_ascending frontier"
    unfolding fr by (intro sorted_wrt_risk_ascending sorted_sort_by_risk)
  show "\<forall>p\<in>set frontier. \<exists>v.
        calculatePortfolioVariance_js (fp_weights p) covarianceMatrix symbols = Some v \<and>
        fp_risk p = js_sqrt v"
  proof
    fix p
    assume "p \<in> set frontier"
    with fr have "p \<in> set pts" by (simp add: set_sort_by_risk)
    then obtain i where "i < length pts" "pts ! i = p" by (auto simp add: in_set_conv_nth)
    with len each have "?f i = Some p" by simp
    then show "\<exists>v. calculatePortfolioVariance_js (fp_weights p) covarianceMatrix symbols = Some v \<and>
        fp_risk p = js_sqrt v"
      by (auto simp add: frontier_point_def bind_eq_Some_conv)
  qed
qed

subsection \<open>Efficient frontier builder: agreement with the real-number model\<close>

text \<open>On finite weights with every read defined, the two models of
  \<^verbatim>\<open>calculatePortfolioReturn\<close> and \<^verbatim>\<open>calculatePortfolioVariance\<close> agree.\<close>

lemma weight_at_finite:
  "map_of ws s = Some w \<Longrightarrow> weight_at (map (\<lambda>(s, w). (s, Finite w)) ws) s = Finite w"
  by (induction ws) (auto simp add: weight_at_def)

lemma calculatePortfolioReturn_js_fold:
  "fold (\<lambda>(symbol, weight) acc. do {
            portfolioReturn \<leftarrow> acc;
            r \<leftarrow> map_of expectedReturns symbol;
            Some (portfolioReturn + weight * r)
          }) ws (Some a) = Some e \<Longrightarrow>
   fold (\<lambda>(symbol, weight) portfolioReturn.
            js_add portfolioReturn (js_mul weight (number_at expectedReturns symbol)))
      (map (\<lambda>(s, w). (s, Finite w)) ws) (Finite a) = Finite e"
proof (induction ws arbitrary: a)
  case Nil
  then show ?case by simp
next
  case (Cons x ws)
  obtain s w where x: "x = (s, w)" by (cases x)
  show ?case
  proof (cases "map_of expectedReturns s")
    case None
    have "fold (\<lambda>(symbol, weight) acc. acc \<bind> (\<lambda>portfolioReturn.
            map_of expectedReturns symbol \<bind> (\<lambda>r. Some (portfolioReturn + weight * r)))) ws None
        = None"
      by (induction ws) (simp_all add: split_def)
    with Cons.prems x None show ?thesis by simp
  next
    case (Some r)
    with Cons.prems x have "fold (\<lambda>(symbol, weight) acc. do {
            portfolioReturn \<leftarrow> acc;
            r \<leftarrow> map_of expectedReturns symbol;
            Some (portfolioReturn + weight * r)
          }) ws (Some (a + w * r)) = Some e" by simp
    from Cons.IH [OF this] x Some show ?thesis by (simp add: number_at_def)
  qed
qed

lemma calculatePortfolioReturn_js_finite:
  "calculatePortfolioReturn ws expectedReturns = Some e \<Longrightarrow>
     calculatePortfolioReturn_js (map (\<lambda>(s, w). (s, Finite w)) ws) expectedReturns = Finite e"
  unfolding calculatePortfolioReturn_def calculatePortfolioReturn_js_def
  by (rule calculatePortfolioReturn_js_fold)

lemma fold_strict_None:
  assumes "\<And>j. f j None = None"
  shows "fold f js None = None"
  by (induction js) (simp_all add: assms)

lemma variance_inner_fold:
  assumes "fold (\<lambda>j acc'. do {
            variance \<leftarrow> acc';
            wi \<leftarrow> map_of ws (symbols ! i);
            wj \<leftarrow> map_of ws (symbols ! j);
            c \<leftarrow> entry covarianceMatrix i j;
            Some (variance + wi * wj * c)
          }) js (Some a) = Some b"
  shows "fold (\<lambda>j variance.
                js_add variance
                  (js_mul (js_mul (weight_at (map (\<lambda>(s, w). (s, Finite w)) ws) (symbols ! i))
                             (weight_at (map (\<lambda>(s, w). (s, Finite w)) ws) (symbols ! j)))
                     (cell covarianceMatrix i j)))
              js (Finite a) = Finite b \<and> (js \<noteq> [] \<longrightarrow> i < length covarianceMatrix)"
  using assms
proof (induction js arbitrary: a)
  case Nil
  then show ?case by simp
next
  case (Cons j js)
  from Cons.prems obtain wi wj c where
    wi: "map_of ws (symbols ! i) = Some wi" and wj: "map_of ws (symbols ! j) = Some wj"
    and c: "entry covarianceMatrix i j = Some c"
    and rest: "fold (\<lambda>j acc'. do {
            variance \<leftarrow> acc';
            wi \<leftarrow> map_of ws (symbols ! i);
            wj \<leftarrow> map_of ws (symbols ! j);
            c \<leftarrow> entry covarianceMatrix i j;
            Some (variance + wi * wj * c)
          }) js (Some (a + wi * wj * c)) = Some b"
  proof (cases "map_of ws (symbols ! i)"; cases "map_of ws (symbols ! j)";
      cases "entry covarianceMatrix i j")
  qed (simp_all add: fold_strict_None)
  from c have cell: "i < length covarianceMatrix" "cell covarianceMatrix i j = Finite c"
    by (auto simp add: entry_def cell_def split: if_splits)
  from Cons.IH [OF rest] cell wi wj show ?case
    by (simp add: weight_at_finite)
qed

lemma variance_outer_fold:
  assumes "fold (\<lambda>i acc. fold (\<lambda>j acc'. do {
            variance \<leftarrow> acc';
            wi \<leftarrow> map_of ws (symbols ! i);
            wj \<leftarrow> map_of ws (symbols ! j);
            c \<leftarrow> entry covarianceMatrix i j;
            Some (variance + wi * wj * c)
          }) js acc) is (Some a) = Some b"
  shows "fold (\<lambda>i acc. fold (\<lambda>j variance.
                js_add variance
                  (js_mul (js_mul (weight_at (map (\<lambda>(s, w). (s, Finite w)) ws) (symbols ! i))
                             (weight_at (map (\<lambda>(s, w). (s, Finite w)) ws) (symbols ! j)))
                     (cell covarianceMatrix i j)))
              js acc) is (Finite a) = Finite b \<and>
         (js \<noteq> [] \<longrightarrow> (\<forall>i\<in>set is. i < length covarianceMatrix))"
  using assms
proof (induction "is" arbitrary: a)
  case Nil
  then show ?case by simp
next
  case (Cons i "is")
  obtain a' where row: "fold (\<lambda>j acc'. do {
            variance \<leftarrow> acc';
            wi \<leftarrow> map_of ws (symbols ! i);
            wj \<leftarrow> map_of ws (symbols ! j);
            c \<leftarrow> entry covarianceMatrix i j;
            Some (variance + wi * wj * c)
          }) js (Some a) = Some a'"
    using Cons.prems by (cases "fold (\<lambda>j acc'. do {
            variance \<leftarrow> acc';
            wi \<leftarrow> map_of ws (symbols ! i);
            wj \<leftarrow> map_of ws (symbols ! j);
            c \<leftarrow> entry covarianceMatrix i j;
            Some (variance + wi * wj * c)
          }) js (Some a)") (simp_all add: fold_strict_None)
  with Cons.prems have rest: "fold (\<lambda>i acc. fold (\<lambda>j acc'. do {
            variance \<leftarrow> acc';
            wi \<leftarrow> map_of ws (symbols ! i);
            wj \<leftarrow> map_of ws (symbols ! j);
            c \<leftarrow> entry covarianceMatrix i j;
            Some (variance + wi * wj * c)
          }) js acc) is (Some a') = Some b" by simp
  from variance_inner_fold [OF row] Cons.IH [OF rest] show ?case by simp
qed

lemma calculatePortfolioVariance_js_finite:
  assumes "calculatePortfolioVariance ws covarianceMatrix symbols = Some v"
  shows "calculatePortfolioVariance_js (map (\<lambda>(s, w). (s, Finite w)) ws) covarianceMatrix symbols
    = Some (Finite v)"
proof -
  from variance_outer_fold [OF assms [unfolded calculatePortfolioVariance_def]]
  have f: "fold (\<lambda>i acc. fold (\<lambda>j variance.
                js_add variance
                  (js_mul (js_mul (weight_at (map (\<lambda>(s, w). (s, Finite w)) ws) (symbols ! i))
                             (weight_at (map (\<lambda>(s, w). (s, Finite w)) ws) (symbols ! j)))
                     (cell covarianceMatrix i j)))
              [0..<length symbols] acc) [0..<length symbols] (Finite 0) = Finite v"
    and rows: "[0..<length symbols] \<noteq> [] \<longrightarrow> (\<forall>i\<in>set [0..<length symbols]. i < length covarianceMatrix)"
    by simp_all
  have "\<not> length covarianceMatrix < length symbols"
  proof
    assume lt: "length covarianceMatrix < length symbols"
    then have "length covarianceMatrix \<in> set [0..<length symbols]" by simp
    moreover from lt have "[0..<length symbols] \<noteq> []" by (cases symbols) simp_all
    ultimately show False using rows by blast
  qed
  with f show ?thesis by (simp add: calculatePortfolioVariance_js_def Let_def)
qed

subsection \<open>Portfolio selector\<close>




lemma targetRisk_of_unknown:
  "targetRisk_of ''balanced'' = Some (16 / 100) \<and> targetRisk_of ''toString'' = None"
  by (simp add: targetRisk_of_def riskLevels_def object_prototype_members_def)




subsection \<open>Rebalance advisor\<close>

text \<open>
  Claim C8 as stated fails. With current weights 0.10004, 0.10006 and 0.7999 (from the
  holdings) and optimal weights 0.20006, 0.20014 and 0.5998, the advisor lists C, A, B,
  although the difference of A (0.10002) is smaller than that of B (0.10008): the sort
  compares the emitted percentages, rounded to two decimals (10.01 for A, 10.00 for B).
  And for a difference of 0.012345 on a total of 1000 the amount is 12.35, not 12.345.
\<close>

theorem rebalance_order_and_amount_counterexample:
  "calculateCurrentWeights rebalance_holdings 100000 = Some rebalance_current \<and>
   map rec_symbol (generateRebalanceRecommendations rebalance_current rebalance_optimal 100000
        [''A'', ''B'', ''C'']) = [''C'', ''A'', ''B''] \<and>
   \<bar>weight_delta rebalance_current rebalance_optimal ''A''\<bar>
      < \<bar>weight_delta rebalance_current rebalance_optimal ''B''\<bar> \<and>
   map rec_amount (generateRebalanceRecommendations [(''A'', 1 / 2)] [(''A'', 512345 / 1000000)] 1000
        [''A'']) = [1235 / 100] \<and>
   \<bar>weight_delta [(''A'', 1 / 2)] [(''A'', 512345 / 1000000)] ''A''\<bar> * 1000 = 12345 / 1000"
  by (simp add: calculateCurrentWeights_def rebalance_holdings_def rebalance_current_def
      rebalance_optimal_def generateRebalanceRecommendations_def recommendation_for_def
      weight_or_zero_def weight_delta_def js_round_def)

lemma map_of_fold_update_other:
  "s \<notin> k ` set hs \<Longrightarrow>
     map_of (fold (\<lambda>h ws. AList.update (k h) (v h) ws) hs ws0) s = map_of ws0 s"
  by (induction hs arbitrary: ws0) (simp_all add: update_conv')

lemma map_of_fold_update_distinct:
  "distinct (map k hs) \<Longrightarrow> h \<in> set hs \<Longrightarrow>
     map_of (fold (\<lambda>h ws. AList.update (k h) (v h) ws) hs ws0) (k h) = Some (v h)"
proof (induction hs arbitrary: ws0)
  case Nil
  then show ?case by simp
next
  case (Cons a hs)
  show ?case
  proof (cases "h = a")
    case True
    with Cons.prems(1) have "k h \<notin> k ` set hs" by auto
    with True show ?thesis
      by (simp add: map_of_fold_update_other update_conv')
  next
    case False
    with Cons show ?thesis by simp
  qed
qed

lemma calculateCurrentWeights_lookup:
  assumes "distinct (map h_symbol holdings)" and "totalValue \<noteq> 0"
  shows "\<exists>cur. calculateCurrentWeights holdings totalValue = Some cur \<and>
     (\<forall>h\<in>set holdings. map_of cur (h_symbol h) = Some (h_quantity h * h_averageCost h / totalValue))"
  using assms
  by (simp add: calculateCurrentWeights_def Let_def
      map_of_fold_update_distinct [where k = h_symbol
        and v = "\<lambda>h. h_quantity h * h_averageCost h / totalValue"])

lemma recommendation_for_cases:
  "recommendation_for cur opt totalValue s =
    (if \<bar>weight_delta cur opt s\<bar> > 1 / 100
     then [\<lparr>rec_symbol = s,
            rec_currentWeight = js_round (weight_or_zero cur s * 10000) / 100,
            rec_targetWeight = js_round (weight_or_zero opt s * 10000) / 100,
            rec_action = (if weight_delta cur opt s > 0 then ''BUY'' else ''SELL''),
            rec_amount = js_round (\<bar>weight_delta cur opt s * totalValue\<bar> * 100) / 100\<rparr>]
     else [])"
  by (simp add: recommendation_for_def weight_delta_def Let_def)

lemma in_recommendation_for_iff:
  "r \<in> set (recommendation_for cur opt totalValue s) \<longleftrightarrow>
     \<bar>weight_delta cur opt s\<bar> > 1 / 100 \<and>
        r = \<lparr>rec_symbol = s,
            rec_currentWeight = js_round (weight_or_zero cur s * 10000) / 100,
            rec_targetWeight = js_round (weight_or_zero opt s * 10000) / 100,
            rec_action = (if weight_delta cur opt s > 0 then ''BUY'' else ''SELL''),
            rec_amount = js_round (\<bar>weight_delta cur opt s * totalValue\<bar> * 100) / 100\<rparr>"
proof (cases "\<bar>weight_delta cur opt s\<bar> > 1 / 100")
  case True
  then show ?thesis by (simp only: recommendation_for_cases if_True list.set singleton_iff simp_thms)
next
  case False
  then show ?thesis by (simp only: recommendation_for_cases if_False list.set empty_iff simp_thms)
qed

lemma in_recommendations_iff:
  "r \<in> set (generateRebalanceRecommendations cur opt totalValue symbols) \<longleftrightarrow>
     (\<exists>s\<in>set symbols. \<bar>weight_delta cur opt s\<bar> > 1 / 100 \<and>
        r = \<lparr>rec_symbol = s,
            rec_currentWeight = js_round (weight_or_zero cur s * 10000) / 100,
            rec_targetWeight = js_round (weight_or_zero opt s * 10000) / 100,
            rec_action = (if weight_delta cur opt s > 0 then ''BUY'' else ''SELL''),
            rec_amount = js_round (\<bar>weight_delta cur opt s * totalValue\<bar> * 100) / 100\<rparr>)"
proof -
  have "r \<in> set (generateRebalanceRecommendations cur opt totalValue symbols) \<longleftrightarrow>
      (\<exists>s\<in>set symbols. r \<in> set (recommendation_for cur opt totalValue s))"
    unfolding generateRebalanceRecommendations_def by (simp only: set_sort set_concat set_map) blast
  then show ?thesis by (simp only: in_recommendation_for_iff)
qed

lemma recommendations_sorted:
  "sorted (map (\<lambda>r. - \<bar>rec_targetWeight r - rec_currentWeight r\<bar>)
     (generateRebalanceRecommendations cur opt totalValue symbols))"
  unfolding generateRebalanceRecommendations_def by (rule sorted_sort_key)

lemma rebalance_scenario:
  "generateRebalanceRecommendations [(''AAPL'', 6 / 10), (''MSFT'', 4 / 10)]
       [(''AAPL'', 4 / 10), (''MSFT'', 6 / 10)] 100000 [''AAPL'', ''MSFT'']
   = [\<lparr>rec_symbol = ''AAPL'', rec_currentWeight = 60, rec_targetWeight = 40,
        rec_action = ''SELL'', rec_amount = 20000\<rparr>,
      \<lparr>rec_symbol = ''MSFT'', rec_currentWeight = 40, rec_targetWeight = 60,
        rec_action = ''BUY'', rec_amount = 20000\<rparr>]"
  by (simp add: generateRebalanceRecommendations_def recommendation_for_def weight_or_zero_def
      js_round_def)

text \<open>
  Claim C8, amended. For holdings with distinct symbols and a positive total value, the
  current weight of a holding is \<open>quantity * averageCost / totalValue\<close>. With
  \<open>delta = optimalWeight - currentWeight\<close> (a missing entry counting as 0), the advisor
  emits a recommendation for a symbol if and only if the symbol is listed and
  \<open>|delta| > 0.01\<close>; its action is BUY when \<open>delta > 0\<close> and SELL otherwise; its amount
  is \<open>|delta| * totalValue\<close> rounded to two decimals; and the list is sorted descending
  by \<open>|targetWeight - currentWeight|\<close> of the emitted fields, which are the weights in
  percent rounded to two decimals. Rebalancing 100000 from AAPL 0.6, MSFT 0.4 to AAPL 0.4,
  MSFT 0.6 gives SELL AAPL 20000, then BUY MSFT 20000.
\<close>

theorem rebalance_recommendations_rounded:
  assumes "distinct (map h_symbol holdings)" and "0 < totalValue"
  shows "\<exists>cur. calculateCurrentWeights holdings totalValue = Some cur \<and>
    (\<forall>h\<in>set holdings. map_of cur (h_symbol h) = Some (h_quantity h * h_averageCost h / totalValue)) \<and>
    (\<forall>s. (\<exists>r\<in>set (generateRebalanceRecommendations cur opt totalValue symbols). rec_symbol r = s)
          \<longleftrightarrow> s \<in> set symbols \<and> \<bar>weight_delta cur opt s\<bar> > 1 / 100) \<and>
    (\<forall>r\<in>set (generateRebalanceRecommendations cur opt totalValue symbols).
        rec_action r = (if weight_delta cur opt (rec_symbol r) > 0 then ''BUY'' else ''SELL'') \<and>
        rec_amount r = js_round (\<bar>weight_delta cur opt (rec_symbol r)\<bar> * totalValue * 100) / 100 \<and>
        rec_currentWeight r = js_round (weight_or_zero cur (rec_symbol r) * 10000) / 100 \<and>
        rec_targetWeight r = js_round (weight_or_zero opt (rec_symbol r) * 10000) / 100) \<and>
    (\<forall>k. Suc k < length (generateRebalanceRecommendations cur opt totalValue symbols) \<longrightarrow>
        \<bar>rec_targetWeight (generateRebalanceRecommendations cur opt totalValue symbols ! Suc k)
          - rec_currentWeight (generateRebalanceRecommendations cur opt totalValue symbols ! Suc k)\<bar>
        \<le> \<bar>rec_targetWeight (generateRebalanceRecommendations cur opt totalValue symbols ! k)
          - rec_currentWeight (generateRebalanceRecommendations cur opt totalValue symbols ! k)\<bar>) \<and>
    generateRebalanceRecommendations [(''AAPL'', 6 / 10), (''MSFT'', 4 / 10)]
       [(''AAPL'', 4 / 10), (''MSFT'', 6 / 10)] 100000 [''AAPL'', ''MSFT'']
     = [\<lparr>rec_symbol = ''AAPL'', rec_currentWeight = 60, rec_targetWeight = 40,
          rec_action = ''SELL'', rec_amount = 20000\<rparr>,
        \<lparr>rec_symbol = ''MSFT'', rec_currentWeight = 40, rec_targetWeight = 60,
          rec_action = ''BUY'', rec_amount = 20000\<rparr>]"
proof -
  from assms have "totalValue \<noteq> 0" by simp
  from calculateCurrentWeights_lookup [OF assms(1) this]
  obtain cur where cur: "calculateCurrentWeights holdings totalValue = Some cur"
    "\<forall>h\<in>set holdings. map_of cur (h_symbol h) = Some (h_quantity h * h_averageCost h / totalValue)"
    by blast
  let ?recs = "generateRebalanceRecommendations cur opt totalValue symbols"
  have emitted: "\<forall>s. (\<exists>r\<in>set ?recs. rec_symbol r = s)
          \<longleftrightarrow> s \<in> set symbols \<and> \<bar>weight_delta cur opt s\<bar> > 1 / 100"
  proof (intro allI iffI)
    fix s
    assume "\<exists>r\<in>set ?recs. rec_symbol r = s"
    then obtain r where "r \<in> set ?recs" "rec_symbol r = s" by blast
    then show "s \<in> set symbols \<and> \<bar>weight_delta cur opt s\<bar> > 1 / 100"
      unfolding in_recommendations_iff by auto
  next
    fix s
    assume a: "s \<in> set symbols \<and> \<bar>weight_delta cur opt s\<bar> > 1 / 100"
    let ?r = "\<lparr>rec_symbol = s,
            rec_currentWeight = js_round (weight_or_zero cur s * 10000) / 100,
            rec_targetWeight = js_round (weight_or_zero opt s * 10000) / 100,
            rec_action = (if weight_delta cur opt s > 0 then ''BUY'' else ''SELL''),
            rec_amount = js_round (\<bar>weight_delta cur opt s * totalValue\<bar> * 100) / 100\<rparr>"
    from a have "?r \<in> set ?recs" unfolding in_recommendations_iff by blast
    moreover have "rec_symbol ?r = s" by simp
    ultimately show "\<exists>r\<in>set ?recs. rec_symbol r = s" by blast
  qed
  have fields: "\<forall>r\<in>set ?recs. rec_action r = (if weight_delta cur opt (rec_symbol r) > 0 then ''BUY'' else ''SELL'') \<and>
        rec_amount r = js_round (\<bar>weight_delta cur opt (rec_symbol r)\<bar> * totalValue * 100) / 100 \<and>
        rec_currentWeight r = js_round (weight_or_zero cur (rec_symbol r) * 10000) / 100 \<and>
        rec_targetWeight r = js_round (weight_or_zero opt (rec_symbol r) * 10000) / 100"
  proof
    fix r
    assume "r \<in> set ?recs"
    then obtain s where "r = \<lparr>rec_symbol = s,
            rec_currentWeight = js_round (weight_or_zero cur s * 10000) / 100,
            rec_targetWeight = js_round (weight_or_zero opt s * 10000) / 100,
            rec_action = (if weight_delta cur opt s > 0 then ''BUY'' else ''SELL''),
            rec_amount = js_round (\<bar>weight_delta cur opt s * totalValue\<bar> * 100) / 100\<rparr>"
      unfolding in_recommendations_iff by blast
    moreover from assms(2) have "\<bar>weight_delta cur opt s * totalValue\<bar>
        = \<bar>weight_delta cur opt s\<bar> * totalValue"
      by (simp add: abs_mult)
    ultimately show "rec_action r = (if weight_delta cur opt (rec_symbol r) > 0 then ''BUY'' else ''SELL'') \<and>
        rec_amount r = js_round (\<bar>weight_delta cur opt (rec_symbol r)\<bar> * totalValue * 100) / 100 \<and>
        rec_currentWeight r = js_round (weight_or_zero cur (rec_symbol r) * 10000) / 100 \<and>
        rec_targetWeight r = js_round (weight_or_zero opt (rec_symbol r) * 10000) / 100"
      by simp
  qed
  have order: "\<forall>k. Suc k < length ?recs \<longrightarrow>
        \<bar>rec_targetWeight (?recs ! Suc k) - rec_currentWeight (?recs ! Suc k)\<bar>
        \<le> \<bar>rec_targetWeight (?recs ! k) - rec_currentWeight (?recs ! k)\<bar>"
  proof (intro allI impI)
    fix k
    assume that: "Suc k < length ?recs"
    from recommendations_sorted [of cur opt totalValue symbols] that
    have "map (\<lambda>r. - \<bar>rec_targetWeight r - rec_currentWeight r\<bar>) ?recs ! k
        \<le> map (\<lambda>r. - \<bar>rec_targetWeight r - rec_currentWeight r\<bar>) ?recs ! Suc k"
      by (intro sorted_nth_mono) simp_all
    with that show "\<bar>rec_targetWeight (?recs ! Suc k) - rec_currentWeight (?recs ! Suc k)\<bar>
        \<le> \<bar>rec_targetWeight (?recs ! k) - rec_currentWeight (?recs ! k)\<bar>"
      by simp
  qed
  from cur(1) cur(2) emitted fields order rebalance_scenario show ?thesis
    by - (rule exI [of _ cur], intro conjI, assumption+)
qed

theorem rebalance_recommendations_rounded_witness:
  "\<exists>cur. calculateCurrentWeights
        [\<lparr>h_symbol = ''AAPL'', h_quantity = 600, h_averageCost = 100\<rparr>,
         \<lparr>h_symbol = ''MSFT'', h_quantity = 400, h_averageCost = 100\<rparr>] 100000 = Some cur \<and>
     map_of cur ''AAPL'' = Some (6 / 10) \<and> map_of cur ''MSFT'' = Some (4 / 10) \<and>
     (\<exists>r\<in>set (generateRebalanceRecommendations cur [(''AAPL'', 4 / 10), (''MSFT'', 6 / 10)] 100000
              [''AAPL'', ''MSFT'']).
        rec_symbol r = ''AAPL'' \<and> rec_action r = ''SELL'' \<and> rec_amount r = 20000)"
proof -
  let ?H = "[\<lparr>h_symbol = ''AAPL'', h_quantity = 600, h_averageCost = 100\<rparr>,
         \<lparr>h_symbol = ''MSFT'', h_quantity = 400, h_averageCost = 100\<rparr>]"
  let ?opt = "[(''AAPL'', 4 / 10), (''MSFT'', 6 / 10)]"
  have h1: "distinct (map h_symbol ?H)" and h2: "(0::real) < 100000" by simp_all
  from rebalance_recommendations_rounded [OF h1 h2, of ?opt "[''AAPL'', ''MSFT'']"]
  obtain cur where cur: "calculateCurrentWeights ?H 100000 = Some cur"
    and look: "\<forall>h\<in>set ?H. map_of cur (h_symbol h) = Some (h_quantity h * h_averageCost h / 100000)"
    and emitted: "\<forall>s. (\<exists>r\<in>set (generateRebalanceRecommendations cur ?opt 100000 [''AAPL'', ''MSFT'']).
            rec_symbol r = s)
          \<longleftrightarrow> s \<in> set [''AAPL'', ''MSFT''] \<and> \<bar>weight_delta cur ?opt s\<bar> > 1 / 100"
    and fields: "\<forall>r\<in>set (generateRebalanceRecommendations cur ?opt 100000 [''AAPL'', ''MSFT'']).
        rec_action r = (if weight_delta cur ?opt (rec_symbol r) > 0 then ''BUY'' else ''SELL'') \<and>
        rec_amount r = js_round (\<bar>weight_delta cur ?opt (rec_symbol r)\<bar> * 100000 * 100) / 100 \<and>
        rec_currentWeight r = js_round (weight_or_zero cur (rec_symbol r) * 10000) / 100 \<and>
        rec_targetWeight r = js_round (weight_or_zero ?opt (rec_symbol r) * 10000) / 100"
    by blast
  from look have a: "map_of cur ''AAPL'' = Some (6 / 10)" and m: "map_of cur ''MSFT'' = Some (4 / 10)"
    by simp_all
  from a have d: "weight_delta cur ?opt ''AAPL'' = - (2 / 10)"
    by (simp add: weight_delta_def weight_or_zero_def)
  from emitted have "(\<exists>r\<in>set (generateRebalanceRecommendations cur ?opt 100000 [''AAPL'', ''MSFT'']).
            rec_symbol r = ''AAPL'')
          \<longleftrightarrow> ''AAPL'' \<in> set [''AAPL'', ''MSFT''] \<and> \<bar>weight_delta cur ?opt ''AAPL''\<bar> > 1 / 100"
    by (rule spec)
  then have "\<exists>r\<in>set (generateRebalanceRecommendations cur ?opt 100000 [''AAPL'', ''MSFT'']).
            rec_symbol r = ''AAPL''"
    by (simp only: d) simp
  then obtain r where
    r: "r \<in> set (generateRebalanceRecommendations cur ?opt 100000 [''AAPL'', ''MSFT''])"
      "rec_symbol r = ''AAPL''"
    by (rule bexE)
  from fields r(1) have "rec_action r = (if weight_delta cur ?opt (rec_symbol r) > 0 then ''BUY'' else ''SELL'') \<and>
        rec_amount r = js_round (\<bar>weight_delta cur ?opt (rec_symbol r)\<bar> * 100000 * 100) / 100 \<and>
        rec_currentWeight r = js_round (weight_or_zero cur (rec_symbol r) * 10000) / 100 \<and>
        rec_targetWeight r = js_round (weight_or_zero ?opt (rec_symbol r) * 10000) / 100"
    by (rule bspec)
  then have "rec_action r = ''SELL''" "rec_amount r = 20000"
    unfolding r(2) d by (simp_all add: js_round_def)
  with cur a m r show ?thesis by blast
qed

subsection \<open>Risk metrics: maximum drawdown\<close>

text \<open>
  Claim C10. For every weights map and every historical data set that is not empty and
  whose shortest return series has fewer than 20 entries, the max-drawdown calculation
  returns exactly 0: the early return comes before any return is replayed, whatever the
  data holds.
\<close>

theorem max_drawdown_zero_on_sparse_history:
  assumes "historicalData \<noteq> []"
    and "Min (set (map (\<lambda>d. length (hd_returns d)) historicalData)) < 20"
  shows "calculateMaxDrawdown ws historicalData = Some 0"
  using assms by (simp add: calculateMaxDrawdown_def)

text \<open>A series that halves and then recovers a little: the replay of its two returns
  finds a drawdown of one half, the calculation reports 0.\<close>

theorem max_drawdown_zero_on_sparse_history_witness:
  "calculateMaxDrawdown [(''A'', 1)]
      [\<lparr>hd_symbol = ''A'', hd_prices = [100, 50, 55], hd_returns = [- 1 / 2, 1 / 10]\<rparr>] = Some 0 \<and>
   snd (snd (fold drawdown_step
      (map (portfolio_daily_return [(''A'', 1)]
          [\<lparr>hd_symbol = ''A'', hd_prices = [100, 50, 55], hd_returns = [- 1 / 2, 1 / 10]\<rparr>]) [0, 1])
      (1, 1, 0))) = 1 / 2"
proof
  show "calculateMaxDrawdown [(''A'', 1)]
      [\<lparr>hd_symbol = ''A'', hd_prices = [100, 50, 55], hd_returns = [- 1 / 2, 1 / 10]\<rparr>] = Some 0"
    by (rule max_drawdown_zero_on_sparse_history) simp_all
  show "snd (snd (fold drawdown_step
      (map (portfolio_daily_return [(''A'', 1)]
          [\<lparr>hd_symbol = ''A'', hd_prices = [100, 50, 55], hd_returns = [- 1 / 2, 1 / 10]\<rparr>]) [0, 1])
      (1, 1, 0))) = 1 / 2"
    by (simp add: portfolio_daily_return_def drawdown_step_def Let_def)
qed

subsection \<open>Risk metrics: Sharpe ratio\<close>

lemma risk_metrics_sharpe:
  assumes "calculateAdvancedRiskMetrics ws expectedReturns covarianceMatrix historicalData = Some m"
  shows "\<exists>e v. calculatePortfolioReturn ws expectedReturns = Some e \<and>
      calculatePortfolioVariance ws covarianceMatrix (map fst ws) = Some v \<and> 0 \<le> v \<and>
      rm_sharpeRatio m
        = js_round ((if sqrt v > 0 then (e - RISK_FREE_RATE) / sqrt v else 0) * 100) / 100"
proof -
  from assms obtain e v where e: "calculatePortfolioReturn ws expectedReturns = Some e"
    and v: "calculatePortfolioVariance ws covarianceMatrix (map fst ws) = Some v"
    and rest: "(if v < 0 then None
     else do {
       let volatility = sqrt v;
       let sharpeRatio = (if volatility > 0 then (e - RISK_FREE_RATE) / volatility else 0);
       maxDrawdown \<leftarrow> calculateMaxDrawdown ws historicalData;
       valueAtRisk \<leftarrow> calculateVaR e volatility (5 / 100);
       conditionalVaR \<leftarrow> calculateConditionalVaR e volatility (5 / 100);
       Some \<lparr>rm_expectedReturn = js_round (e * 10000) / 100,
             rm_volatility = js_round (volatility * 10000) / 100,
             rm_sharpeRatio = js_round (sharpeRatio * 100) / 100,
             rm_maxDrawdown = js_round (maxDrawdown * 10000) / 100,
             rm_valueAtRisk = js_round (\<bar>valueAtRisk\<bar> * 10000) / 100,
             rm_conditionalVaR = js_round (\<bar>conditionalVaR\<bar> * 10000) / 100\<rparr>
     }) = Some m"
    unfolding calculateAdvancedRiskMetrics_def Let_def by (auto simp add: bind_eq_Some_conv)
  from rest have nonneg: "0 \<le> v" by (simp split: if_splits)
  with rest have "rm_sharpeRatio m
        = js_round ((if sqrt v > 0 then (e - RISK_FREE_RATE) / sqrt v else 0) * 100) / 100"
    by (auto simp add: bind_eq_Some_conv Let_def not_less simp del: real_sqrt_gt_0_iff)
  with e v nonneg show ?thesis by blast
qed

lemma js_round_zero: "js_round 0 = 0"
  by (simp add: js_round_def)

lemma getZScore_5_percent: "\<exists>z. getZScore (5 / 100) = Some z"
  by (simp add: getZScore_def Let_def)

lemma risk_metrics_returns:
  assumes "calculatePortfolioReturn ws expectedReturns = Some e"
    and "calculatePortfolioVariance ws covarianceMatrix (map fst ws) = Some v"
    and "0 \<le> v"
    and "calculateMaxDrawdown ws historicalData = Some dd"
  shows "\<exists>m. calculateAdvancedRiskMetrics ws expectedReturns covarianceMatrix historicalData = Some m"
proof -
  from getZScore_5_percent obtain z where "getZScore (5 / 100) = Some z" by blast
  with assms show ?thesis
    by (simp add: calculateAdvancedRiskMetrics_def calculateVaR_def calculateConditionalVaR_def
        Let_def not_less)
qed

text \<open>
  Claim C9 as stated fails on the rounding. One asset with weight 1, expected return 10% and
  variance 0.04: the volatility is 0.2, the quotient \<open>(0.10 - 0.045) / 0.2\<close> is 0.275, and
  the reported Sharpe ratio is \<open>Math.round(27.5) / 100 = 0.28\<close>.
\<close>

theorem sharpe_ratio_is_rounded_counterexample:
  "map_option rm_sharpeRatio
     (calculateAdvancedRiskMetrics [(''A'', 1)] [(''A'', 1 / 10)] [[1 / 25]]
        [\<lparr>hd_symbol = ''A'', hd_prices = [100, 101, 102], hd_returns = [1 / 100, 1 / 101]\<rparr>])
     = Some (28 / 100) \<and>
   calculatePortfolioReturn [(''A'', 1)] [(''A'', 1 / 10)] = Some (1 / 10) \<and>
   calculatePortfolioVariance [(''A'', 1)] [[1 / 25]] [''A''] = Some (1 / 25) \<and>
   0 < sqrt (1 / 25) \<and>
   (1 / 10 - RISK_FREE_RATE) / sqrt (1 / 25) = 275 / 1000"
proof -
  let ?H = "[\<lparr>hd_symbol = ''A'', hd_prices = [100, 101, 102], hd_returns = [1 / 100, 1 / 101]\<rparr>]"
  have e: "calculatePortfolioReturn [(''A'', 1)] [(''A'', 1 / 10)] = Some (1 / 10)"
    by (simp add: calculatePortfolioReturn_def)
  have v: "calculatePortfolioVariance [(''A'', 1)] [[1 / 25]] (map fst [(''A'', 1::real)]) = Some (1 / 25)"
    by (simp add: calculatePortfolioVariance_def entry_def)
  have dd: "calculateMaxDrawdown [(''A'', 1)] ?H = Some 0"
    by (simp add: calculateMaxDrawdown_def)
  have "(0::real) \<le> 1 / 25" by simp
  from risk_metrics_returns [OF e v this dd] obtain m where
    m: "calculateAdvancedRiskMetrics [(''A'', 1)] [(''A'', 1 / 10)] [[1 / 25]] ?H = Some m"
    by blast
  from risk_metrics_sharpe [OF m] obtain e' v' where
    "calculatePortfolioReturn [(''A'', 1)] [(''A'', 1 / 10)] = Some e'"
    "calculatePortfolioVariance [(''A'', 1)] [[1 / 25]] (map fst [(''A'', 1::real)]) = Some v'"
    and s: "rm_sharpeRatio m
        = js_round ((if sqrt v' > 0 then (e' - RISK_FREE_RATE) / sqrt v' else 0) * 100) / 100"
    by blast
  with e v have es: "e' = 1 / 10" and vs: "v' = 1 / 25" by simp_all
  have "rm_sharpeRatio m = 28 / 100"
    unfolding s es vs by (simp add: sqrt_one_25th RISK_FREE_RATE_def js_round_def)
  with m e v show ?thesis
    by (simp add: sqrt_one_25th RISK_FREE_RATE_def)
qed

text \<open>
  Claim C9, amended. Whenever the risk metrics calculator returns, the expected return
  \<open>e\<close> and the variance \<open>v\<close> of the weights are defined and \<open>v\<close> is not negative; if the
  volatility \<open>sqrt v\<close> is 0 the reported Sharpe ratio is exactly 0, and if it is positive
  the reported Sharpe ratio is \<open>(e - riskFreeRate) / sqrt v\<close> rounded to two decimals,
  \<open>Math.round(q * 100) / 100\<close>.
\<close>

theorem sharpe_ratio_zero_or_rounded_quotient:
  assumes "calculateAdvancedRiskMetrics ws expectedReturns covarianceMatrix historicalData = Some m"
  shows "\<exists>e v. calculatePortfolioReturn ws expectedReturns = Some e \<and>
      calculatePortfolioVariance ws covarianceMatrix (map fst ws) = Some v \<and> 0 \<le> v \<and>
      (sqrt v = 0 \<longrightarrow> rm_sharpeRatio m = 0) \<and>
      (0 < sqrt v \<longrightarrow> rm_sharpeRatio m = js_round ((e - RISK_FREE_RATE) / sqrt v * 100) / 100)"
proof -
  from risk_metrics_sharpe [OF assms] obtain e v where
    ev: "calculatePortfolioReturn ws expectedReturns = Some e"
      "calculatePortfolioVariance ws covarianceMatrix (map fst ws) = Some v" "0 \<le> v"
    and s: "rm_sharpeRatio m
        = js_round ((if sqrt v > 0 then (e - RISK_FREE_RATE) / sqrt v else 0) * 100) / 100"
    by blast
  have "rm_sharpeRatio m = 0" if "sqrt v = 0"
    unfolding s using that by (simp add: js_round_zero)
  then have "sqrt v = 0 \<longrightarrow> rm_sharpeRatio m = 0" by blast
  moreover have "rm_sharpeRatio m = js_round ((e - RISK_FREE_RATE) / sqrt v * 100) / 100"
    if "0 < sqrt v"
    unfolding s using that by (simp only: if_True)
  then have "0 < sqrt v \<longrightarrow>
      rm_sharpeRatio m = js_round ((e - RISK_FREE_RATE) / sqrt v * 100) / 100" by blast
  ultimately show ?thesis using ev by blast
qed

text \<open>Two assets without any volatility: the calculator returns, with Sharpe ratio 0.\<close>

theorem sharpe_ratio_zero_or_rounded_quotient_witness:
  "\<exists>m. calculateAdvancedRiskMetrics [(''A'', 1 / 2), (''B'', 1 / 2)]
        [(''A'', 10 / 100), (''B'', 5 / 100)] [[0, 0], [0, 0]]
        [\<lparr>hd_symbol = ''A'', hd_prices = [100, 100], hd_returns = [0]\<rparr>,
         \<lparr>hd_symbol = ''B'', hd_prices = [50, 50], hd_returns = [0]\<rparr>] = Some m \<and>
     rm_sharpeRatio m = 0"
proof -
  let ?ws = "[(''A'', 1 / 2), (''B'', 1 / 2)] :: obj"
  let ?er = "[(''A'', 10 / 100), (''B'', 5 / 100)] :: obj"
  let ?H = "[\<lparr>hd_symbol = ''A'', hd_prices = [100, 100], hd_returns = [0]\<rparr>,
         \<lparr>hd_symbol = ''B'', hd_prices = [50, 50], hd_returns = [0]\<rparr>]"
  have e: "calculatePortfolioReturn ?ws ?er = Some (75 / 1000)"
    by (simp add: calculatePortfolioReturn_def)
  have v: "calculatePortfolioVariance ?ws [[0, 0], [0, 0]] (map fst ?ws) = Some 0"
    by (simp add: calculatePortfolioVariance_def entry_def upt_rec[of 0] upt_rec[of 1])
  have dd: "calculateMaxDrawdown ?ws ?H = Some 0"
    by (simp add: calculateMaxDrawdown_def)
  have "(0::real) \<le> 0" by simp
  from risk_metrics_returns [OF e v this dd] obtain m where
    m: "calculateAdvancedRiskMetrics ?ws ?er [[0, 0], [0, 0]] ?H = Some m"
    by blast
  from sharpe_ratio_zero_or_rounded_quotient [OF m] v have "rm_sharpeRatio m = 0"
    by auto
  with m show ?thesis by blast
qed

subsection \<open>Monte Carlo simulator: daily returns\<close>

lemma cholesky_one_asset: "choleskyDecomposition [[1 / 25]] = Some [[1 / 5]]"
  by (simp add: choleskyDecomposition_def chol_cell_def entry_def sqrt_one_25th)

lemma fold_shock_sum:
  assumes "i < length L" and "\<forall>j\<le>i. j < length (L ! i)"
  shows "k \<le> Suc i \<Longrightarrow> fold (\<lambda>j acc. do {
                 s \<leftarrow> acc;
                 l \<leftarrow> entry L i j;
                 Some (s + l * zs ! j)
               }) [0..<k] (Some a) = Some (a + (\<Sum>j<k. L ! i ! j * zs ! j))"
proof (induction k)
  case 0
  then show ?case by simp
next
  case (Suc k)
  then have "k \<le> i" by simp
  with assms have "entry L i k = Some (L ! i ! k)" by (simp add: entry_def)
  with Suc show ?case by simp
qed

lemma correlated_return_formula:
  assumes "correlated_return symbols expectedReturns L zs i = Some x"
  shows "\<exists>r. map_of expectedReturns (symbols ! i) = Some r \<and>
    x = r / 252 + (\<Sum>j<Suc i. L ! i ! j * zs ! j) * sqrt (L ! i ! i / 252)"
proof -
  from assms obtain shock r lii where
    shock: "fold (\<lambda>j acc. do {
                 s \<leftarrow> acc;
                 l \<leftarrow> entry L i j;
                 Some (s + l * zs ! j)
               }) [0..<Suc i] (Some 0) = Some shock"
    and r: "map_of expectedReturns (symbols ! i) = Some r"
    and lii: "entry L i i = Some lii"
    and x: "x = r / real TRADING_DAYS + shock * sqrt (lii / real TRADING_DAYS)"
    by (auto simp add: correlated_return_def bind_eq_Some_conv Let_def split: if_splits)
  from lii have i: "i < length L" "i < length (L ! i)" "lii = L ! i ! i"
    by (auto simp add: entry_def split: if_splits)
  then have "\<forall>j\<le>i. j < length (L ! i)" by simp
  from fold_shock_sum [OF i(1) this, of "Suc i" zs 0] shock
  have "shock = (\<Sum>j<Suc i. L ! i ! j * zs ! j)" by simp
  with r x i(3) show ?thesis by (simp add: TRADING_DAYS_def)
qed

lemma simulate_day_compounds:
  assumes "simulate_day ws expectedReturns L symbols portfolioValue rng = Some (v, rng')"
  shows "\<exists>rs d. generateCorrelatedReturnsCholesky symbols expectedReturns L rng = Some (rs, rng') \<and>
     weighted_return ws symbols rs = Some d \<and> v = portfolioValue * (1 + d)"
  using assms by (auto simp add: simulate_day_def bind_eq_Some_conv)

text \<open>
  Claim C3 (what the code does). The daily return of asset \<open>i\<close> is its per-day expected
  return plus the correlated shock times \<open>sqrt (L[i][i] / 252)\<close>, with the diagonal of the
  Cholesky factor \<open>L\<close>, not of the covariance matrix (lemma \<open>correlated_return_formula\<close>).
  For one asset of annual variance 0.04 the factor is \<open>L = [[0.2]]\<close>; with expected return
  10% and the normal draw 1 the code computes \<open>0.1 / 252 + 0.2 * sqrt (0.2 / 252)\<close>, which
  is not \<open>0.1 / 252 + 0.2 * sqrt (0.04 / 252)\<close>.
\<close>

theorem daily_volatility_reads_cholesky_diagonal:
  "choleskyDecomposition [[1 / 25]] = Some [[1 / 5]] \<and>
   correlated_return [''A''] [(''A'', 1 / 10)] [[1 / 5]] [1] 0
     = Some (1 / 10 / 252 + 1 / 5 * 1 * sqrt (1 / 5 / 252)) \<and>
   1 / 10 / 252 + 1 / 5 * 1 * sqrt (1 / 5 / 252) \<noteq> 1 / 10 / 252 + 1 / 5 * 1 * sqrt (1 / 25 / 252)"
proof (intro conjI)
  show "choleskyDecomposition [[1 / 25]] = Some [[1 / 5]]"
    by (rule cholesky_one_asset)
  show "correlated_return [''A''] [(''A'', 1 / 10)] [[1 / 5]] [1] 0
     = Some (1 / 10 / 252 + 1 / 5 * 1 * sqrt (1 / 5 / 252))"
    by (simp add: correlated_return_def entry_def TRADING_DAYS_def)
  have "sqrt (1 / 5 / 252) \<noteq> sqrt (1 / 25 / 252)"
    by simp
  then show "1 / 10 / 252 + 1 / 5 * 1 * sqrt (1 / 5 / 252) \<noteq> 1 / 10 / 252 + 1 / 5 * 1 * sqrt (1 / 25 / 252)"
    by simp
qed

subsection \<open>Monte Carlo simulator: the random source\<close>

lemma consumes_prefix_return: "consumes_prefix (\<lambda>rng. Some (c, rng))"
  unfolding consumes_prefix_def by (intro allI impI exI [of _ "[]"]) simp

lemma consumes_prefix_pure: "consumes_prefix (\<lambda>rng. m \<bind> (\<lambda>y. Some (k y, rng)))"
  unfolding consumes_prefix_def
  by (intro allI impI exI [of _ "[]"]) (auto simp add: bind_eq_Some_conv)

lemma consumes_prefix_bind:
  assumes f: "consumes_prefix f" and g: "\<And>x. consumes_prefix (g x)"
  shows "consumes_prefix (\<lambda>rng. f rng \<bind> (\<lambda>(x, rng1). g x rng1))"
  unfolding consumes_prefix_def
proof (intro allI impI)
  fix rng y rest
  assume "f rng \<bind> (\<lambda>(x, rng1). g x rng1) = Some (y, rest)"
  then obtain x rng1 where fx: "f rng = Some (x, rng1)" and gy: "g x rng1 = Some (y, rest)"
    by (auto simp add: bind_eq_Some_conv)
  from f fx obtain u1 where u1: "rng = u1 @ rng1" "\<forall>rng'. f (u1 @ rng') = Some (x, rng')"
    unfolding consumes_prefix_def by blast
  from g [of x] gy obtain u2 where u2: "rng1 = u2 @ rest" "\<forall>rng'. g x (u2 @ rng') = Some (y, rng')"
    unfolding consumes_prefix_def by blast
  have "rng = (u1 @ u2) @ rest" using u1(1) u2(1) by simp
  moreover have "\<forall>rng'. f ((u1 @ u2) @ rng') \<bind> (\<lambda>(x, rng1). g x rng1) = Some (y, rng')"
    using u1(2) u2(2) by simp
  ultimately show "\<exists>used. rng = used @ rest \<and>
      (\<forall>rng'. f (used @ rng') \<bind> (\<lambda>(x, rng1). g x rng1) = Some (y, rng'))"
    by blast
qed

lemma consumes_prefix_option_bind:
  assumes "\<And>y. consumes_prefix (g y)"
  shows "consumes_prefix (\<lambda>rng. m \<bind> (\<lambda>y. g y rng))"
proof (cases m)
  case None
  then show ?thesis by (simp add: consumes_prefix_def)
next
  case (Some y)
  with assms [of y] show ?thesis by simp
qed

lemma consumes_prefix_next_nonzero: "consumes_prefix next_nonzero"
  unfolding consumes_prefix_def
proof (intro allI impI)
  fix rng x rest
  assume "next_nonzero rng = Some (x, rest)"
  then show "\<exists>used. rng = used @ rest \<and> (\<forall>rng'. next_nonzero (used @ rng') = Some (x, rng'))"
  proof (induction rng)
    case Nil
    then show ?case by simp
  next
    case (Cons a rng)
    show ?case
    proof (cases "a = 0")
      case True
      with Cons.prems have "next_nonzero rng = Some (x, rest)" by simp
      from Cons.IH [OF this] obtain used where
        "rng = used @ rest" "\<forall>rng'. next_nonzero (used @ rng') = Some (x, rng')" by blast
      with True have "a # rng = (a # used) @ rest \<and>
          (\<forall>rng'. next_nonzero ((a # used) @ rng') = Some (x, rng'))" by simp
      then show ?thesis by blast
    next
      case False
      with Cons.prems have "0 \<le> a" "a < 1" "x = a" "rest = rng"
        by (auto split: if_splits)
      with False have "a # rng = [a] @ rest \<and> (\<forall>rng'. next_nonzero ([a] @ rng') = Some (x, rng'))"
        by simp
      then show ?thesis by blast
    qed
  qed
qed

lemma consumes_prefix_normalRandom: "consumes_prefix normalRandom"
  unfolding normalRandom_def [abs_def]
  by (intro consumes_prefix_bind consumes_prefix_next_nonzero consumes_prefix_return)

lemma consumes_prefix_draw_normals: "consumes_prefix (draw_normals n)"
proof (induction n)
  case 0
  have "draw_normals 0 = (\<lambda>rng. Some ([], rng))" by (rule ext) simp
  then show ?case by (simp only: consumes_prefix_return)
next
  case (Suc n)
  have "draw_normals (Suc n) = (\<lambda>rng. normalRandom rng \<bind> (\<lambda>(z, rng1).
      draw_normals n rng1 \<bind> (\<lambda>(zs, rng2). Some (z # zs, rng2))))"
    by (rule ext) simp
  then show ?case
    by (simp only:)
      (intro consumes_prefix_bind consumes_prefix_normalRandom Suc.IH consumes_prefix_return)
qed

lemma consumes_prefix_generateCorrelatedReturnsCholesky:
  "consumes_prefix (generateCorrelatedReturnsCholesky symbols expectedReturns L)"
  unfolding generateCorrelatedReturnsCholesky_def [abs_def]
  by (intro consumes_prefix_bind consumes_prefix_draw_normals consumes_prefix_pure)

lemma consumes_prefix_simulate_day:
  "consumes_prefix (simulate_day ws expectedReturns L symbols portfolioValue)"
  unfolding simulate_day_def [abs_def]
  by (intro consumes_prefix_bind consumes_prefix_generateCorrelatedReturnsCholesky
      consumes_prefix_pure)

lemma consumes_prefix_simulate_days:
  "consumes_prefix (simulate_days d ws expectedReturns L symbols portfolioValue)"
proof (induction d arbitrary: portfolioValue)
  case 0
  have "simulate_days 0 ws expectedReturns L symbols portfolioValue
      = (\<lambda>rng. Some (portfolioValue, rng))" by (rule ext) simp
  then show ?case by (simp only: consumes_prefix_return)
next
  case (Suc d)
  have "simulate_days (Suc d) ws expectedReturns L symbols portfolioValue
      = (\<lambda>rng. simulate_day ws expectedReturns L symbols portfolioValue rng \<bind>
           (\<lambda>(v, rng'). simulate_days d ws expectedReturns L symbols v rng'))"
    by (rule ext) simp
  then show ?case
    by (simp only:) (intro consumes_prefix_bind consumes_prefix_simulate_day Suc.IH)
qed

lemma consumes_prefix_simulate_scenarios:
  "consumes_prefix (simulate_scenarios k ws expectedReturns L symbols initialValue)"
proof (induction k)
  case 0
  have "simulate_scenarios 0 ws expectedReturns L symbols initialValue
      = (\<lambda>rng. Some ([], rng))" by (rule ext) simp
  then show ?case by (simp only: consumes_prefix_return)
next
  case (Suc k)
  have "simulate_scenarios (Suc k) ws expectedReturns L symbols initialValue
      = (\<lambda>rng. simulate_days TRADING_DAYS ws expectedReturns L symbols initialValue rng \<bind>
           (\<lambda>(v, rng1). simulate_scenarios k ws expectedReturns L symbols initialValue rng1 \<bind>
              (\<lambda>(vs, rng2). Some (v # vs, rng2))))"
    by (rule ext) simp
  then show ?case
    by (simp only:)
      (intro consumes_prefix_bind consumes_prefix_simulate_days Suc.IH consumes_prefix_return)
qed

lemma consumes_prefix_runAdvancedMonteCarloSimulation:
  "consumes_prefix (runAdvancedMonteCarloSimulation ws expectedReturns covarianceMatrix initialValue symbols)"
  unfolding runAdvancedMonteCarloSimulation_def [abs_def]
  by (intro consumes_prefix_option_bind consumes_prefix_bind consumes_prefix_simulate_scenarios
      consumes_prefix_return)

text \<open>A supply that repeats one value \<open>c\<close> of \<open>(0, 1)\<close>: every normal draw is the same
  \<open>z\<close>, every day has the same return \<open>d\<close>, every scenario ends at the same value.\<close>

lemma draw_normals_constant:
  assumes "0 < c" "c < 1"
  shows "draw_normals n (replicate (2 * n) c @ rest)
      = Some (replicate n (sqrt (- 2 * ln c) * cos (2 * pi * c)), rest)"
proof (induction n)
  case 0
  then show ?case by simp
next
  case (Suc n)
  have "replicate (2 * Suc n) c @ rest = c # c # replicate (2 * n) c @ rest" by simp
  with Suc assms show ?case
    by (simp only: draw_normals.simps normalRandom_two [OF assms assms]) simp
qed

lemma simulate_day_constant:
  assumes "0 < c" "c < 1"
    and "those (map (correlated_return symbols expectedReturns L
            (replicate (length symbols) (sqrt (- 2 * ln c) * cos (2 * pi * c))))
          [0..<length symbols]) = Some rs"
    and "weighted_return ws symbols rs = Some d"
  shows "simulate_day ws expectedReturns L symbols v (replicate (2 * length symbols) c @ rest)
      = Some (v * (1 + d), rest)"
  using assms(3,4)
  by (simp add: simulate_day_def generateCorrelatedReturnsCholesky_def
      draw_normals_constant [OF assms(1,2)])

lemma simulate_days_constant:
  assumes "0 < c" "c < 1"
    and "those (map (correlated_return symbols expectedReturns L
            (replicate (length symbols) (sqrt (- 2 * ln c) * cos (2 * pi * c))))
          [0..<length symbols]) = Some rs"
    and "weighted_return ws symbols rs = Some d"
  shows "simulate_days n ws expectedReturns L symbols v
           (replicate (2 * length symbols * n) c @ rest)
      = Some (v * (1 + d) ^ n, rest)"
proof (induction n arbitrary: v)
  case 0
  then show ?case by simp
next
  case (Suc n)
  have "replicate (2 * length symbols * Suc n) c @ rest
      = replicate (2 * length symbols) c @ (replicate (2 * length symbols * n) c @ rest)"
    by (simp add: replicate_add [symmetric])
  moreover have "simulate_days (Suc n) ws expectedReturns L symbols v
      (replicate (2 * length symbols) c @ (replicate (2 * length symbols * n) c @ rest))
      = simulate_days n ws expectedReturns L symbols (v * (1 + d))
          (replicate (2 * length symbols * n) c @ rest)"
    by (simp only: simulate_days.simps simulate_day_constant [OF assms] bind.bind_lunit prod.case)
  moreover have "v * (1 + d) * (1 + d) ^ n = v * (1 + d) ^ Suc n" by simp
  ultimately show ?case using Suc.IH [of "v * (1 + d)"] by (simp only:)
qed

lemma simulate_scenarios_constant:
  assumes "0 < c" "c < 1"
    and "those (map (correlated_return symbols expectedReturns L
            (replicate (length symbols) (sqrt (- 2 * ln c) * cos (2 * pi * c))))
          [0..<length symbols]) = Some rs"
    and "weighted_return ws symbols rs = Some d"
  shows "simulate_scenarios k ws expectedReturns L symbols v
           (replicate (2 * length symbols * TRADING_DAYS * k) c @ rest)
      = Some (replicate k (v * (1 + d) ^ TRADING_DAYS), rest)"
proof (induction k)
  case 0
  then show ?case by simp
next
  case (Suc k)
  have "replicate (2 * length symbols * TRADING_DAYS * Suc k) c @ rest
      = replicate (2 * length symbols * TRADING_DAYS) c
          @ (replicate (2 * length symbols * TRADING_DAYS * k) c @ rest)"
    by (simp add: replicate_add [symmetric])
  moreover have "simulate_scenarios (Suc k) ws expectedReturns L symbols v
      (replicate (2 * length symbols * TRADING_DAYS) c
          @ (replicate (2 * length symbols * TRADING_DAYS * k) c @ rest))
      = Some (v * (1 + d) ^ TRADING_DAYS # replicate k (v * (1 + d) ^ TRADING_DAYS), rest)"
    by (simp only: simulate_scenarios.simps simulate_days_constant [OF assms] Suc.IH
        bind.bind_lunit prod.case)
  ultimately show ?case by (simp only: replicate_Suc)
qed

lemma percentile_replicate:
  "nat \<lfloor>real k * p\<rfloor> < k \<Longrightarrow> percentile (replicate k x) p = x"
  by (simp add: percentile_def)

lemma run_constant:
  assumes "0 < c" "c < 1"
    and "choleskyDecomposition covarianceMatrix = Some L"
    and "those (map (correlated_return symbols expectedReturns L
            (replicate (length symbols) (sqrt (- 2 * ln c) * cos (2 * pi * c))))
          [0..<length symbols]) = Some rs"
    and "weighted_return ws symbols rs = Some d"
  shows "runAdvancedMonteCarloSimulation ws expectedReturns covarianceMatrix v symbols
           (replicate (2 * length symbols * TRADING_DAYS * MONTE_CARLO_SCENARIOS) c @ rest)
      = Some (summarize v (replicate MONTE_CARLO_SCENARIOS (v * (1 + d) ^ TRADING_DAYS)), rest)"
proof -
  have "sort (replicate MONTE_CARLO_SCENARIOS (v * (1 + d) ^ TRADING_DAYS))
      = replicate MONTE_CARLO_SCENARIOS (v * (1 + d) ^ TRADING_DAYS)"
    by (rule sorted_sort_id) simp
  then show ?thesis
    by (simp add: runAdvancedMonteCarloSimulation_def assms(3)
        simulate_scenarios_constant [OF assms(1,2,4,5)])
qed

lemma percentile_5_constant:
  "mc_percentile_5 (summarize v (replicate MONTE_CARLO_SCENARIOS x)) = x"
  by (simp add: summarize_def percentile_replicate MONTE_CARLO_SCENARIOS_def)

text \<open>One asset with weight 1, expected return 0 and variance 1, starting from 100000.\<close>

lemma one_asset_cholesky: "choleskyDecomposition [[1]] = Some [[1]]"
  by (simp add: choleskyDecomposition_def chol_cell_def entry_def)

lemma one_asset_returns:
  "those (map (correlated_return [''A''] [(''A'', 0)] [[1]] (replicate (length [''A'']) z))
      [0..<length [''A'']]) = Some [z * sqrt (1 / real TRADING_DAYS)]"
  by (simp add: correlated_return_def entry_def)

lemma one_asset_weighted: "weighted_return [(''A'', 1)] [''A''] [x] = Some x"
  by (simp add: weighted_return_def)

lemma one_asset_supply:
  "replicate (2 * length [''A''] * TRADING_DAYS * MONTE_CARLO_SCENARIOS) c @ [] = replicate 504000 c"
  by (simp add: TRADING_DAYS_def MONTE_CARLO_SCENARIOS_def)

lemma one_asset_run:
  assumes "0 < c" "c < 1"
  shows "runAdvancedMonteCarloSimulation [(''A'', 1)] [(''A'', 0)] [[1]] 100000 [''A'']
           (replicate 504000 c)
      = Some (summarize 100000 (replicate MONTE_CARLO_SCENARIOS
            (100000 * (1 + sqrt (- 2 * ln c) * cos (2 * pi * c) * sqrt (1 / real TRADING_DAYS))
                ^ TRADING_DAYS)), [])"
  using run_constant [OF assms one_asset_cholesky one_asset_returns one_asset_weighted,
      of 100000 "[]"]
  by (simp only: one_asset_supply)

lemma normal_of_quarter: "sqrt (- 2 * ln (1 / 4)) * cos (2 * pi * (1 / 4)) = 0"
  by simp

lemma normal_of_half: "sqrt (- 2 * ln (1 / 2)) * cos (2 * pi * (1 / 2)) = - sqrt (2 * ln 2)"
  by (simp add: ln_div)

lemma half_day_factor:
  "0 < 1 + - sqrt (2 * ln 2) * sqrt (1 / real TRADING_DAYS)"
  "1 + - sqrt (2 * ln 2) * sqrt (1 / real TRADING_DAYS) < 1"
proof -
  have "ln (2::real) \<le> 2 - 1" by (rule ln_le_minus_one) simp
  then have "2 * ln 2 * (1 / real TRADING_DAYS) < 1" by (simp add: TRADING_DAYS_def)
  then have "sqrt (2 * ln 2 * (1 / real TRADING_DAYS)) < 1"
    by (simp only: real_sqrt_lt_1_iff)
  then have "sqrt (2 * ln 2) * sqrt (1 / real TRADING_DAYS) < 1"
    by (simp only: real_sqrt_mult)
  then show "0 < 1 + - sqrt (2 * ln 2) * sqrt (1 / real TRADING_DAYS)"
    by linarith
  have "0 < sqrt (2 * ln 2) * sqrt (1 / real TRADING_DAYS)"
    by (simp add: TRADING_DAYS_def)
  then show "1 + - sqrt (2 * ln 2) * sqrt (1 / real TRADING_DAYS) < 1" by linarith
qed

text \<open>
  Claim C2 as stated fails: the simulator has no random source to inject or seed, it reads
  \<^verbatim>\<open>Math.random()\<close>, and its inputs do not fix its result. With identical inputs (one
  asset, weight 1, expected return 0, variance 1, initial value 100000), a run in which
  every \<^verbatim>\<open>Math.random()\<close> value is 0.25 has the 5th percentile 100000, and a run in
  which every value is 0.5 has a smaller one.
\<close>

theorem monte_carlo_same_inputs_different_percentiles_counterexample:
  "map_option (\<lambda>r. mc_percentile_5 (fst r))
     (runAdvancedMonteCarloSimulation [(''A'', 1)] [(''A'', 0)] [[1]] 100000 [''A'']
        (replicate 504000 (1 / 4))) = Some 100000 \<and>
   map_option (\<lambda>r. mc_percentile_5 (fst r))
     (runAdvancedMonteCarloSimulation [(''A'', 1)] [(''A'', 0)] [[1]] 100000 [''A'']
        (replicate 504000 (1 / 2)))
     = Some (100000 * (1 + - sqrt (2 * ln 2) * sqrt (1 / real TRADING_DAYS)) ^ TRADING_DAYS) \<and>
   100000 * (1 + - sqrt (2 * ln 2) * sqrt (1 / real TRADING_DAYS)) ^ TRADING_DAYS < 100000"
proof (intro conjI)
  have q: "(0::real) < 1 / 4" "(1::real) / 4 < 1" by simp_all
  show "map_option (\<lambda>r. mc_percentile_5 (fst r))
     (runAdvancedMonteCarloSimulation [(''A'', 1)] [(''A'', 0)] [[1]] 100000 [''A'']
        (replicate 504000 (1 / 4))) = Some 100000"
    by (simp only: one_asset_run [OF q] normal_of_quarter option.map fst_conv
        percentile_5_constant) simp
  have h: "(0::real) < 1 / 2" "(1::real) / 2 < 1" by simp_all
  show "map_option (\<lambda>r. mc_percentile_5 (fst r))
     (runAdvancedMonteCarloSimulation [(''A'', 1)] [(''A'', 0)] [[1]] 100000 [''A'']
        (replicate 504000 (1 / 2)))
     = Some (100000 * (1 + - sqrt (2 * ln 2) * sqrt (1 / real TRADING_DAYS)) ^ TRADING_DAYS)"
    by (simp only: one_asset_run [OF h] normal_of_half option.map fst_conv
        percentile_5_constant)
  have "(1 + - sqrt (2 * ln 2) * sqrt (1 / real TRADING_DAYS)) ^ TRADING_DAYS < 1"
    using half_day_factor by (simp add: TRADING_DAYS_def power_less_one_iff)
  then show "100000 * (1 + - sqrt (2 * ln 2) * sqrt (1 / real TRADING_DAYS)) ^ TRADING_DAYS < 100000"
    by simp
qed

text \<open>
  Claim C2, amended. The simulator draws its normal variates from the ambient
  \<^verbatim>\<open>Math.random()\<close>. The result of a run, its percentiles included, is fixed by the
  inputs and by the \<^verbatim>\<open>Math.random()\<close> values the run consumes: a run with the same
  inputs that is given the same values, followed by anything else, returns the same
  result.
\<close>

theorem monte_carlo_result_fixed_by_consumed_draws:
  assumes "runAdvancedMonteCarloSimulation ws expectedReturns covarianceMatrix initialValue symbols rng
             = Some (result, rest)"
  shows "\<exists>used. rng = used @ rest \<and>
    (\<forall>rng'. runAdvancedMonteCarloSimulation ws expectedReturns covarianceMatrix initialValue symbols
              (used @ rng') = Some (result, rng'))"
  using consumes_prefix_runAdvancedMonteCarloSimulation assms
  unfolding consumes_prefix_def by blast

theorem monte_carlo_result_fixed_by_consumed_draws_witness:
  "\<forall>rng'. map_option (\<lambda>r. mc_percentile_5 (fst r))
     (runAdvancedMonteCarloSimulation [(''A'', 1)] [(''A'', 0)] [[1]] 100000 [''A'']
        (replicate 504000 (1 / 4) @ rng')) = Some 100000"
proof
  fix rng'
  have q: "(0::real) < 1 / 4" "(1::real) / 4 < 1" by simp_all
  from monte_carlo_result_fixed_by_consumed_draws [OF one_asset_run [OF q]]
  obtain used where "replicate 504000 (1 / 4) = used @ []"
    and "\<forall>rng'. runAdvancedMonteCarloSimulation [(''A'', 1)] [(''A'', 0)] [[1]] 100000 [''A'']
              (used @ rng')
      = Some (summarize 100000 (replicate MONTE_CARLO_SCENARIOS
            (100000 * (1 + sqrt (- 2 * ln (1 / 4)) * cos (2 * pi * (1 / 4)) * sqrt (1 / real TRADING_DAYS))
                ^ TRADING_DAYS)), rng')"
    by blast
  then have "runAdvancedMonteCarloSimulation [(''A'', 1)] [(''A'', 0)] [[1]] 100000 [''A'']
              (replicate 504000 (1 / 4) @ rng')
      = Some (summarize 100000 (replicate MONTE_CARLO_SCENARIOS
            (100000 * (1 + sqrt (- 2 * ln (1 / 4)) * cos (2 * pi * (1 / 4)) * sqrt (1 / real TRADING_DAYS))
                ^ TRADING_DAYS)), rng')"
    by simp
  then show "map_option (\<lambda>r. mc_percentile_5 (fst r))
     (runAdvancedMonteCarloSimulation [(''A'', 1)] [(''A'', 0)] [[1]] 100000 [''A'']
        (replicate 504000 (1 / 4) @ rng')) = Some 100000"
    by (simp only: normal_of_quarter option.map fst_conv percentile_5_constant) simp
qed

end
